theory Spec2Isabelle
  imports Complex_Main "HOL-Library.Signed_Division" "HOL-Library.AList"
begin

section \<open>The a0 interpreter: abstract syntax, values, environments\<close>

text \<open>
  The development follows the Go sources of the a0 interpreter: the AST node types of
  package \<open>frontend\<close>, the runtime values and environments of package \<open>runtime\<close>, the
  tree-walking function \<open>Evaluate\<close> with its helpers, and the lexer.

  Conventions of the embedding.
  \<^item> A Go interface value may be nil; the node type \<open>Stmt\<close> and the value type
    \<open>RuntimeVal\<close> therefore each have a constructor for nil (\<open>NilStmt\<close>, \<open>NilVal\<close>).
  \<^item> \<open>float64\<close> is idealised as \<open>real\<close>: rounding, infinities, NaN and the sign of zero
    are outside the model. The conversion \<open>int(x)\<close> is \<open>go_int\<close> below.
  \<^item> A Go map with string keys is an association list kept with distinct keys
    (\<open>AList.update\<close>) for object properties, and a partial function for the variables of
    an environment.
  \<^item> Environments are heap objects reached through pointers: a pointer is a natural
    number, and the heap is part of the explicit state.
  \<^item> A returned \<open>error\<close>, a Go panic and the exhaustion of the evaluation bound are the
    three kinds of \<open>failure\<close>.
\<close>

subsection \<open>AST nodes (package frontend)\<close>

datatype Stmt =
    NilStmt
  | Program "Stmt list"
  | VarDeclaration bool string Stmt
  | FunctionDeclaration string "string list" "Stmt list"
  | IfStmt Stmt "Stmt list"
  | WhileStmt Stmt "Stmt list"
  | ForStmt Stmt "Stmt list"
  | ReturnStmt Stmt
  | AssignmentExpr Stmt Stmt
  | CallExpr "Stmt list" Stmt
  | MemberExpr Stmt Stmt bool
  | LogicalExpr Stmt Stmt string
  | BinaryExpr Stmt Stmt string
  | UnaryExpr Stmt string
  | NumericLiteral real
  | StringLiteral string
  | Identifier string
  | PropertyNode Property
  | ObjectLiteral "Property list"
and Property = Property string Stmt

text \<open>
  Field order is the one of the Go structs: \<open>VarDeclaration Constant Identifier Value\<close>,
  \<open>FunctionDeclaration Name Parameters Body\<close>, \<open>IfStmt Condition Body\<close> (likewise
  \<open>WhileStmt\<close>, \<open>ForStmt\<close>), \<open>AssignmentExpr Assignee Value\<close>, \<open>CallExpr Args Caller\<close>,
  \<open>MemberExpr Object Property Computed\<close>, \<open>LogicalExpr Left Right Operator\<close> (likewise
  \<open>BinaryExpr\<close>), \<open>UnaryExpr Operant Operator\<close>, \<open>Property Key Value\<close>.
\<close>

subsection \<open>Runtime values (runtime/values.go)\<close>

type_synonym envp = nat

datatype native = PrintFn

datatype RuntimeVal =
    NilVal
  | NumberVal real
  | StringVal string
  | NadaVal
  | BoolVal bool
  | ObjectVal "(string \<times> RuntimeVal) list" string
  | NativeFunctionValue native string
  | UserFunctionValue string "string list" envp "Stmt list"
  | ReturnValue RuntimeVal

text \<open>
  \<open>ObjectVal Properties ObjectName\<close>, \<open>NativeFunctionValue Call Name\<close> (the only native
  function of the repository is \<open>print\<close>), \<open>UserFunctionValue Name Parameters
  DeclarationEnv Body\<close>.
\<close>

subsection \<open>Failures\<close>

datatype err =
    NodeNotAdded Stmt
  | UnknownOperator string
  | UnknownLogicalOperator string
  | NonObjectAccess RuntimeVal
  | InvalidKeyType RuntimeVal
  | ExpectedIdentifier Stmt
  | ArgsMismatch string
  | NotCallable RuntimeVal
  | IfConditionNotBool
  | WhileConditionNotBool
  | ForCountNotNumber
  | AlreadyDefined string
  | AssignToConstant string

datatype panic =
    InvalidAssignee Stmt
  | VariableDoesNotExist string
  | IntegerDivideByZero
  | NilDereference

datatype failure = Error err | Panic panic | OutOfFuel

text \<open>
  \<open>Error e\<close> is a non-nil \<open>error\<close> returned to the caller (an \<open>InterpretingError\<close> or a
  \<open>fmt.Errorf\<close> value); \<open>Panic p\<close> is a Go panic, which no function of the repository
  recovers; \<open>OutOfFuel\<close> says that the bound on the evaluation was reached, so that the
  model gives no result.
\<close>

subsection \<open>Equality and ordering of values (logical expression helpers)\<close>

definition isTruthy :: "RuntimeVal \<Rightarrow> bool" where
  "isTruthy val =
     (case val of
        BoolVal v \<Rightarrow> v
      | NumberVal v \<Rightarrow> v \<noteq> 0
      | NadaVal \<Rightarrow> False
      | _ \<Rightarrow> val \<noteq> NilVal)"

fun deepEqual :: "RuntimeVal \<Rightarrow> RuntimeVal \<Rightarrow> bool"
and objectsEqualLoop :: "(string \<times> RuntimeVal) list \<Rightarrow> (string \<times> RuntimeVal) list \<Rightarrow> bool" where
  "deepEqual a b =
     (if a = NilVal \<and> b = NilVal then True
      else if a = NilVal \<or> b = NilVal then False
      else (case a of
          NumberVal x \<Rightarrow> (case b of NumberVal y \<Rightarrow> x = y | _ \<Rightarrow> False)
        | BoolVal x \<Rightarrow> (case b of BoolVal y \<Rightarrow> x = y | _ \<Rightarrow> False)
        | NadaVal \<Rightarrow> (case b of NadaVal \<Rightarrow> True | _ \<Rightarrow> False)
        | ObjectVal pa _ \<Rightarrow>
            (case b of
               ObjectVal pb _ \<Rightarrow>
                 if length pa \<noteq> length pb then False else objectsEqualLoop pa pb
             | _ \<Rightarrow> False)
        | _ \<Rightarrow> False))"
| "objectsEqualLoop [] b = True"
| "objectsEqualLoop ((key, valA) # rest) b =
     (case map_of b key of
        None \<Rightarrow> False
      | Some valB \<Rightarrow> if \<not> deepEqual valA valB then False else objectsEqualLoop rest b)"

declare deepEqual.simps(1) [simp del]

text \<open>
  \<open>objectsEqualLoop\<close> is the \<open>range\<close> loop of \<open>objectsEqual\<close>; the comparison of the two
  lengths that precedes it is in the \<open>ObjectVal\<close> case of \<open>deepEqual\<close>.
\<close>

definition objectsEqual :: "(string \<times> RuntimeVal) list \<Rightarrow> (string \<times> RuntimeVal) list \<Rightarrow> bool" where
  "objectsEqual a b = (if length a \<noteq> length b then False else objectsEqualLoop a b)"

lemma deepEqual_ObjectVal:
  "deepEqual (ObjectVal pa na) (ObjectVal pb nb) = objectsEqual pa pb"
  by (simp add: objectsEqual_def deepEqual.simps(1))

text \<open>
  The values on which \<open>deepEqual\<close> has a case to compare: nil, numbers, booleans, nada,
  and objects (with distinct keys, as a map has) whose properties are such values.
\<close>

fun comparable :: "RuntimeVal \<Rightarrow> bool" where
  "comparable NilVal = True"
| "comparable (NumberVal x) = True"
| "comparable (BoolVal b) = True"
| "comparable NadaVal = True"
| "comparable (ObjectVal props name) =
     (distinct (map fst props) \<and> list_all (\<lambda>p. comparable (snd p)) props)"
| "comparable v = False"

definition lessThanV :: "RuntimeVal \<Rightarrow> RuntimeVal \<Rightarrow> bool" where
  "lessThanV a b =
     (case a of NumberVal x \<Rightarrow> (case b of NumberVal y \<Rightarrow> x < y | _ \<Rightarrow> False) | _ \<Rightarrow> False)"

definition lessEqual :: "RuntimeVal \<Rightarrow> RuntimeVal \<Rightarrow> bool" where
  "lessEqual a b =
     (case a of NumberVal x \<Rightarrow> (case b of NumberVal y \<Rightarrow> x \<le> y | _ \<Rightarrow> False) | _ \<Rightarrow> False)"

definition greaterThanV :: "RuntimeVal \<Rightarrow> RuntimeVal \<Rightarrow> bool" where
  "greaterThanV a b =
     (case a of NumberVal x \<Rightarrow> (case b of NumberVal y \<Rightarrow> x > y | _ \<Rightarrow> False) | _ \<Rightarrow> False)"

definition greaterEqual :: "RuntimeVal \<Rightarrow> RuntimeVal \<Rightarrow> bool" where
  "greaterEqual a b =
     (case a of NumberVal x \<Rightarrow> (case b of NumberVal y \<Rightarrow> x \<ge> y | _ \<Rightarrow> False) | _ \<Rightarrow> False)"

text \<open>
  \<open>lessThanV\<close> and \<open>greaterThanV\<close> are the source's \<open>lessThan\<close> and \<open>greaterThan\<close>.
\<close>

subsection \<open>Arithmetic on numbers\<close>

text \<open>
  \<open>int(x)\<close> on a \<open>float64\<close> discards the fraction (truncation towards zero). The result
  is an \<open>int\<close> of 64 bits; for a value that does not fit, Go leaves the result to the
  implementation, and the value taken here is the one of the amd64 conversion
  instruction, the least 64-bit integer.
\<close>

definition trunc :: "real \<Rightarrow> int" where
  "trunc x = (if 0 \<le> x then \<lfloor>x\<rfloor> else \<lceil>x\<rceil>)"

definition go_int :: "real \<Rightarrow> int" where
  "go_int x = (let t = trunc x in if - (2 ^ 63) \<le> t \<and> t < 2 ^ 63 then t else - (2 ^ 63))"

definition evalNumericBinaryExpr :: "real \<Rightarrow> real \<Rightarrow> string \<Rightarrow> failure + RuntimeVal" where
  "evalNumericBinaryExpr leftSide rightSide operator =
     (if operator = ''+'' then Inr (NumberVal (leftSide + rightSide))
      else if operator = ''-'' then Inr (NumberVal (leftSide - rightSide))
      else if operator = ''*'' then Inr (NumberVal (leftSide * rightSide))
      else if operator = ''/'' then
        (if rightSide = 0 then Inr (NumberVal 0) else Inr (NumberVal (leftSide / rightSide)))
      else if operator = ''%'' then
        (let leftInt = go_int leftSide; rightInt = go_int rightSide
         in if rightInt = 0 then Inl (Panic IntegerDivideByZero)
            else Inr (NumberVal (of_int (leftInt smod rightInt))))
      else Inl (Error (UnknownOperator operator)))"

text \<open>
  In the \<open>%\<close> case the source computes \<open>leftInt % rightInt\<close> with no test of its own; the
  test on \<open>rightInt\<close> above is the one the Go runtime makes, which panics with
  ``integer divide by zero''. \<open>smod\<close> is the remainder of truncated division, as in Go.
\<close>

definition evalNumericUnaryExpr :: "real \<Rightarrow> string \<Rightarrow> RuntimeVal" where
  "evalNumericUnaryExpr operant operator =
     (let result = (0::real)
      in if operator = ''-'' then NumberVal (- operant)
         else if operator = ''!'' then NumberVal (if result = 0 then 1 else 0)
         else NumberVal operant)"

text \<open>
  \<open>result\<close> is the local \<open>var result float64\<close>, which Go initialises to zero; the \<open>!\<close>
  case tests it, not the operand.
\<close>

subsection \<open>Environments (scoped variable frames)\<close>

record Environment =
  global :: bool
  parent :: "envp option"
  variables :: "string \<rightharpoonup> RuntimeVal"
  constants :: "string set"

record state =
  envs :: "envp \<Rightarrow> Environment"
  nextp :: envp
  stdout :: "string list"

text \<open>
  \<open>envs\<close> is the heap of environments, \<open>nextp\<close> the next pointer that \<open>NewEnvironment\<close>
  hands out, and \<open>stdout\<close> the lines written by \<open>print\<close>. Pointers are handed out in
  increasing order, so the parent of an environment has a smaller pointer than the
  environment itself.
\<close>

definition setVar :: "envp \<Rightarrow> string \<Rightarrow> RuntimeVal \<Rightarrow> state \<Rightarrow> state" where
  "setVar env name val st =
     st\<lparr>envs := (envs st)(env := (envs st env)\<lparr>variables := (variables (envs st env))(name \<mapsto> val)\<rparr>)\<rparr>"

definition DeclareVar ::
  "envp \<Rightarrow> string \<Rightarrow> RuntimeVal \<Rightarrow> bool \<Rightarrow> state \<Rightarrow> (failure + RuntimeVal) \<times> state" where
  "DeclareVar env varName val constant st =
     (if variables (envs st env) varName \<noteq> None then (Inl (Error (AlreadyDefined varName)), st)
      else
        (let st1 = setVar env varName val st;
             st2 = (if constant
                    then st1\<lparr>envs := (envs st1)(env := (envs st1 env)\<lparr>constants := insert varName (constants (envs st1 env))\<rparr>)\<rparr>
                    else st1)
         in (Inr val, st2)))"

function resolve :: "state \<Rightarrow> envp \<Rightarrow> string \<Rightarrow> failure + envp" where
  "resolve st env varName =
     (if variables (envs st env) varName \<noteq> None then Inr env
      else (case parent (envs st env) of
              None \<Rightarrow> Inl (Panic (VariableDoesNotExist varName))
            | Some p \<Rightarrow> if p < env then resolve st p varName else Inl OutOfFuel))"
  by pat_completeness auto
termination
  by (relation "measure (\<lambda>(st, env, varName). env)") auto

declare resolve.simps [simp del]

text \<open>
  The test \<open>p < env\<close> has no counterpart in the source: it holds in every heap that
  \<open>NewEnvironment\<close> builds, and a chain of parents that did not descend would make the
  source recurse for ever.
\<close>

definition AssignVal :: "envp \<Rightarrow> string \<Rightarrow> RuntimeVal \<Rightarrow> state \<Rightarrow> (failure + RuntimeVal) \<times> state" where
  "AssignVal env varName val st =
     (case resolve st env varName of
        Inl f \<Rightarrow> (Inl f, st)
      | Inr resolvedEnv \<Rightarrow>
          if varName \<in> constants (envs st resolvedEnv)
          then (Inl (Error (AssignToConstant varName)), st)
          else (Inr val, setVar resolvedEnv varName val st))"

definition LookupVar :: "envp \<Rightarrow> string \<Rightarrow> state \<Rightarrow> failure + RuntimeVal" where
  "LookupVar env varName st =
     (case resolve st env varName of
        Inl f \<Rightarrow> Inl f
      | Inr resolvedEnv \<Rightarrow>
          (case variables (envs st resolvedEnv) varName of None \<Rightarrow> Inr NilVal | Some v \<Rightarrow> Inr v))"

definition setupGlobalScope :: "envp \<Rightarrow> state \<Rightarrow> state" where
  "setupGlobalScope env st =
     (let st1 = snd (DeclareVar env ''nada'' NadaVal True st);
          st2 = snd (DeclareVar env ''true'' (BoolVal True) True st1);
          st3 = snd (DeclareVar env ''false'' (BoolVal False) True st2)
      in snd (DeclareVar env ''print'' (NativeFunctionValue PrintFn ''print'') True st3))"

definition NewEnvironment :: "envp option \<Rightarrow> state \<Rightarrow> envp \<times> state" where
  "NewEnvironment parentEnv st =
     (let e = nextp st;
          st1 = st\<lparr>envs := (envs st)(e := \<lparr>global = (parentEnv = None), parent = parentEnv,
                                              variables = Map.empty, constants = {}\<rparr>),
                   nextp := Suc e\<rparr>
      in if parentEnv = None then (e, setupGlobalScope e st1) else (e, st1))"

subsection \<open>The native function print\<close>

text \<open>
  \<open>fmtValue\<close> is what the verb \<open>%v\<close> prints for a value: the \<open>Error\<close> method of a
  \<open>ReturnValue\<close> (an \<open>error\<close> goes before a \<open>Stringer\<close>), the \<open>String\<close> method of every
  other value. \<open>String\<close> is the method of the same name; on the nil interface value the
  call panics. The first argument stands for \<open>strconv.FormatFloat(x, 'f', -1, 64)\<close> of
  the Go library.
\<close>

fun fmtValue :: "(real \<Rightarrow> string) \<Rightarrow> RuntimeVal \<Rightarrow> string" where
  "fmtValue ff NilVal = ''<nil>''"
| "fmtValue ff (NumberVal x) = ff x"
| "fmtValue ff (StringVal s) = s"
| "fmtValue ff NadaVal = ''nada''"
| "fmtValue ff (BoolVal b) = (if b then ''true'' else ''false'')"
| "fmtValue ff (ObjectVal props name) = ''User Object ('' @ name @ '')''"
| "fmtValue ff (NativeFunctionValue call name) = ''Native Function ('' @ name @ '')''"
| "fmtValue ff (UserFunctionValue name params declEnv body) = ''User Function ('' @ name @ '')''"
| "fmtValue ff (ReturnValue v) = fmtValue ff v"

definition String :: "(real \<Rightarrow> string) \<Rightarrow> RuntimeVal \<Rightarrow> string option" where
  "String ff v =
     (case v of
        NilVal \<Rightarrow> None
      | ReturnValue w \<Rightarrow> Some (if w = NilVal then ''return <nil>'' else ''return '' @ fmtValue ff w)
      | _ \<Rightarrow> Some (fmtValue ff v))"

definition callNative ::
  "(real \<Rightarrow> string) \<Rightarrow> native \<Rightarrow> RuntimeVal list \<Rightarrow> envp \<Rightarrow> state \<Rightarrow> (failure + RuntimeVal) \<times> state" where
  "callNative ff fn args env st =
     (case fn of
        PrintFn \<Rightarrow>
          (case those (map (String ff) args) of
             None \<Rightarrow> (Inl (Panic NilDereference), st)
           | Some strs \<Rightarrow> (Inr NadaVal, st\<lparr>stdout := stdout st @ [concat strs]\<rparr>)))"

fun declareParams :: "envp \<Rightarrow> string list \<Rightarrow> RuntimeVal list \<Rightarrow> state \<Rightarrow> state" where
  "declareParams scope (varName # params) (arg # args) st =
     declareParams scope params args (snd (DeclareVar scope varName arg False st))"
| "declareParams scope params args st = st"

text \<open>
  \<open>declareParams\<close> is the loop of \<open>evalCallExpr\<close> that declares one variable for each
  parameter; it runs only when the two lists have the same length, and it drops the
  result of \<open>DeclareVar\<close>, as the source does.
\<close>

function forLoop ::
  "(RuntimeVal \<Rightarrow> 's \<Rightarrow> (failure + RuntimeVal) \<times> 's) \<Rightarrow> int \<Rightarrow> int \<Rightarrow> RuntimeVal \<Rightarrow> 's
     \<Rightarrow> (failure + RuntimeVal) \<times> 's" where
  "forLoop body i limit lastEvaluated st =
     (if i < limit
      then (case body lastEvaluated st of
              (Inl e, st1) \<Rightarrow> (Inl e, st1)
            | (Inr v, st1) \<Rightarrow> forLoop body (i + 1) limit v st1)
      else (Inr lastEvaluated, st))"
  by pat_completeness auto
termination
  by (relation "measure (\<lambda>(body, i, limit, lastEvaluated, st). nat (limit - i))") auto

declare forLoop.simps [simp del]

text \<open>
  \<open>forLoop\<close> is the counting loop \<open>for i := 0; i < limit; i++\<close> of \<open>evalForStmt\<close>, with
  the inner loop over the statements of the body as its first argument.
\<close>

section \<open>The evaluator\<close>

text \<open>
  The functions \<open>evalProgram\<close>, \<open>evalCallExpr\<close>, ... of the source call \<open>Evaluate\<close>, which
  calls them back. Here each of them takes the evaluator it calls as its first argument
  \<open>ev\<close>, and \<open>Evaluate\<close> ties the knot by recursion on a bound \<open>n\<close>: \<open>Evaluate ff (Suc n)\<close>
  runs the type switch with \<open>Evaluate ff n\<close> for the nested calls. \<open>n\<close> bounds the depth
  of nested calls of \<open>Evaluate\<close> and the number of rounds of a \<open>while\<close> loop; \<open>ff\<close> is the
  float formatting function of the host. An evaluation returns the value or the
  failure, and the state it leaves.
\<close>

type_synonym result = "(failure + RuntimeVal) \<times> state"
type_synonym evaluator = "Stmt \<Rightarrow> envp \<Rightarrow> state \<Rightarrow> result"

subsection \<open>Expressions\<close>

definition evalLogicalExpr :: "evaluator \<Rightarrow> Stmt \<Rightarrow> Stmt \<Rightarrow> string \<Rightarrow> envp \<Rightarrow> state \<Rightarrow> result" where
  "evalLogicalExpr ev left right operator env st =
     (case ev left env st of
        (Inl e, st1) \<Rightarrow> (Inl e, st1)
      | (Inr leftSide, st1) \<Rightarrow>
          (case ev right env st1 of
             (Inl e, st2) \<Rightarrow> (Inl e, st2)
           | (Inr rightSide, st2) \<Rightarrow>
               (if operator = ''and'' then (Inr (BoolVal (isTruthy leftSide \<and> isTruthy rightSide)), st2)
                else if operator = ''or'' then (Inr (BoolVal (isTruthy leftSide \<or> isTruthy rightSide)), st2)
                else if operator = ''not'' then (Inr (BoolVal (\<not> isTruthy leftSide)), st2)
                else if operator = ''=='' then (Inr (BoolVal (deepEqual leftSide rightSide)), st2)
                else if operator = ''!='' then (Inr (BoolVal (\<not> deepEqual leftSide rightSide)), st2)
                else if operator = ''<'' then (Inr (BoolVal (lessThanV leftSide rightSide)), st2)
                else if operator = ''<='' then (Inr (BoolVal (lessEqual leftSide rightSide)), st2)
                else if operator = ''>'' then (Inr (BoolVal (greaterThanV leftSide rightSide)), st2)
                else if operator = ''>='' then (Inr (BoolVal (greaterEqual leftSide rightSide)), st2)
                else (Inl (Error (UnknownLogicalOperator operator)), st2))))"

definition evalBinaryExpr :: "evaluator \<Rightarrow> Stmt \<Rightarrow> Stmt \<Rightarrow> string \<Rightarrow> envp \<Rightarrow> state \<Rightarrow> result" where
  "evalBinaryExpr ev left right operator env st =
     (case ev left env st of
        (Inl e, st1) \<Rightarrow> (Inl e, st1)
      | (Inr leftSide, st1) \<Rightarrow>
          (case ev right env st1 of
             (Inl e, st2) \<Rightarrow> (Inl e, st2)
           | (Inr rightSide, st2) \<Rightarrow>
               (case leftSide of
                  NumberVal leftNum \<Rightarrow>
                    (case rightSide of
                       NumberVal rightNum \<Rightarrow> (evalNumericBinaryExpr leftNum rightNum operator, st2)
                     | _ \<Rightarrow> (Inr NadaVal, st2))
                | _ \<Rightarrow> (Inr NadaVal, st2))))"

definition evalUnaryExpr :: "evaluator \<Rightarrow> Stmt \<Rightarrow> string \<Rightarrow> envp \<Rightarrow> state \<Rightarrow> result" where
  "evalUnaryExpr ev operant operator env st =
     (case ev operant env st of
        (Inl e, st1) \<Rightarrow> (Inl e, st1)
      | (Inr operantVal, st1) \<Rightarrow>
          (case operantVal of
             NumberVal operantNum \<Rightarrow> (Inr (evalNumericUnaryExpr operantNum operator), st1)
           | _ \<Rightarrow> (Inr NadaVal, st1)))"

definition evalIdentifier :: "string \<Rightarrow> envp \<Rightarrow> state \<Rightarrow> result" where
  "evalIdentifier symbol env st = (LookupVar env symbol st, st)"

fun evalProperties ::
  "evaluator \<Rightarrow> Property list \<Rightarrow> (string \<times> RuntimeVal) list \<Rightarrow> envp \<Rightarrow> state
     \<Rightarrow> (failure + (string \<times> RuntimeVal) list) \<times> state" where
  "evalProperties ev [] object env st = (Inr object, st)"
| "evalProperties ev (Property key val # props) object env st =
     (if val = NilStmt
      then (case LookupVar env key st of
              Inl e \<Rightarrow> (Inl e, st)
            | Inr runtimeVal \<Rightarrow> evalProperties ev props (AList.update key runtimeVal object) env st)
      else (case ev val env st of
              (Inl e, st1) \<Rightarrow> (Inl e, st1)
            | (Inr runtimeVal, st1) \<Rightarrow>
                evalProperties ev props (AList.update key runtimeVal object) env st1))"

definition evalObjectExpr :: "evaluator \<Rightarrow> Property list \<Rightarrow> envp \<Rightarrow> state \<Rightarrow> result" where
  "evalObjectExpr ev props env st =
     (case evalProperties ev props [] env st of
        (Inl e, st1) \<Rightarrow> (Inl e, st1)
      | (Inr object, st1) \<Rightarrow> (Inr (ObjectVal object []), st1))"

text \<open>\<open>evalProperties\<close> is the loop of \<open>evalObjectExpr\<close> over the properties.\<close>

definition evalMemberExpr ::
  "(real \<Rightarrow> string) \<Rightarrow> evaluator \<Rightarrow> Stmt \<Rightarrow> Stmt \<Rightarrow> bool \<Rightarrow> envp \<Rightarrow> state \<Rightarrow> result" where
  "evalMemberExpr ff ev object property computed env st =
     (case ev object env st of
        (Inl e, st1) \<Rightarrow> (Inl e, st1)
      | (Inr objVal, st1) \<Rightarrow>
          (case objVal of
             ObjectVal objProps objName \<Rightarrow>
               (let lookup = (\<lambda>key. case map_of objProps key of None \<Rightarrow> NadaVal | Some val \<Rightarrow> val)
                in if computed
                   then (case ev property env st1 of
                           (Inl e, st2) \<Rightarrow> (Inl e, st2)
                         | (Inr propVal, st2) \<Rightarrow>
                             (case propVal of
                                StringVal k \<Rightarrow> (Inr (lookup k), st2)
                              | NumberVal k \<Rightarrow> (Inr (lookup (ff k)), st2)
                              | _ \<Rightarrow> (Inl (Error (InvalidKeyType propVal)), st2)))
                   else (case property of
                           Identifier symbol \<Rightarrow> (Inr (lookup symbol), st1)
                         | _ \<Rightarrow> (Inl (Error (ExpectedIdentifier property)), st1)))
           | _ \<Rightarrow> (Inl (Error (NonObjectAccess objVal)), st1)))"

definition evalAssignmentExpr :: "evaluator \<Rightarrow> Stmt \<Rightarrow> Stmt \<Rightarrow> envp \<Rightarrow> state \<Rightarrow> result" where
  "evalAssignmentExpr ev assignee val env st =
     (case assignee of
        Identifier assigneeName \<Rightarrow>
          (case ev val env st of
             (Inl e, st1) \<Rightarrow> (Inl e, st1)
           | (Inr assigneeValue, st1) \<Rightarrow> AssignVal env assigneeName assigneeValue st1)
      | NilStmt \<Rightarrow> (Inl (Panic NilDereference), st)
      | _ \<Rightarrow> (Inl (Panic (InvalidAssignee assignee)), st))"

subsection \<open>Calls\<close>

fun evalArgs :: "evaluator \<Rightarrow> Stmt list \<Rightarrow> envp \<Rightarrow> state \<Rightarrow> (failure + RuntimeVal list) \<times> state" where
  "evalArgs ev [] env st = (Inr [], st)"
| "evalArgs ev (arg # args) env st =
     (case ev arg env st of
        (Inl e, st1) \<Rightarrow> (Inl e, st1)
      | (Inr v, st1) \<Rightarrow>
          (case evalArgs ev args env st1 of
             (Inl e, st2) \<Rightarrow> (Inl e, st2)
           | (Inr vs, st2) \<Rightarrow> (Inr (v # vs), st2)))"

fun evalFunctionBody :: "evaluator \<Rightarrow> Stmt list \<Rightarrow> envp \<Rightarrow> state \<Rightarrow> result" where
  "evalFunctionBody ev [] scope st = (Inr NadaVal, st)"
| "evalFunctionBody ev (stmt # body) scope st =
     (case ev stmt scope st of
        (Inl e, st1) \<Rightarrow> (Inl e, st1)
      | (Inr result, st1) \<Rightarrow>
          (case result of
             ReturnValue ret \<Rightarrow> (Inr ret, st1)
           | _ \<Rightarrow> evalFunctionBody ev body scope st1))"

definition callFunction ::
  "(real \<Rightarrow> string) \<Rightarrow> evaluator \<Rightarrow> RuntimeVal \<Rightarrow> RuntimeVal list \<Rightarrow> envp \<Rightarrow> state \<Rightarrow> result" where
  "callFunction ff ev fn args env st =
     (case fn of
        NativeFunctionValue call name \<Rightarrow> callNative ff call args env st
      | UserFunctionValue name params declEnv body \<Rightarrow>
          (let (scope, st1) = NewEnvironment (Some declEnv) st
           in if length params \<noteq> length args
              then (Inl (Error (ArgsMismatch name)), st1)
              else evalFunctionBody ev body scope (declareParams scope params args st1))
      | _ \<Rightarrow> (Inl (Error (NotCallable fn)), st))"

definition evalCallExpr ::
  "(real \<Rightarrow> string) \<Rightarrow> evaluator \<Rightarrow> Stmt list \<Rightarrow> Stmt \<Rightarrow> envp \<Rightarrow> state \<Rightarrow> result" where
  "evalCallExpr ff ev args caller env st =
     (case evalArgs ev args env st of
        (Inl e, st1) \<Rightarrow> (Inl e, st1)
      | (Inr argVals, st1) \<Rightarrow>
          (case ev caller env st1 of
             (Inl e, st2) \<Rightarrow> (Inl e, st2)
           | (Inr fn, st2) \<Rightarrow> callFunction ff ev fn argVals env st2))"

text \<open>
  \<open>evalArgs\<close> is the loop of \<open>evalCallExpr\<close> that fills \<open>args\<close>, \<open>callFunction\<close> its
  \<open>switch callableFn := fn.(type)\<close>, and \<open>evalFunctionBody\<close> the loop over the body of a
  user function inside that switch.
\<close>

subsection \<open>Statements\<close>

fun evalBlock :: "evaluator \<Rightarrow> RuntimeVal \<Rightarrow> Stmt list \<Rightarrow> envp \<Rightarrow> state \<Rightarrow> result" where
  "evalBlock ev lastEvaluated [] env st = (Inr lastEvaluated, st)"
| "evalBlock ev lastEvaluated (statement # body) env st =
     (case ev statement env st of
        (Inl e, st1) \<Rightarrow> (Inl e, st1)
      | (Inr v, st1) \<Rightarrow> evalBlock ev v body env st1)"

text \<open>
  \<open>evalBlock\<close> is the loop
  \<open>for _, s := range body { lastEvaluated, err = Evaluate(s, env); if err != nil { return nil, err } }\<close>
  that \<open>evalProgram\<close>, \<open>evalIfStmt\<close>, \<open>evalWhileStmt\<close> and \<open>evalForStmt\<close> each contain; its
  second argument is the value of \<open>lastEvaluated\<close> when the loop starts.
\<close>

definition evalProgram :: "evaluator \<Rightarrow> Stmt list \<Rightarrow> envp \<Rightarrow> state \<Rightarrow> result" where
  "evalProgram ev body env st = evalBlock ev NilVal body env st"

text \<open>
  \<open>var lastEvaluated RuntimeVal\<close> in \<open>evalProgram\<close> has no initial value, so it starts as
  the nil interface value; \<open>evalForStmt\<close> declares it the same way, while \<open>evalIfStmt\<close>
  and \<open>evalWhileStmt\<close> start from \<open>NadaVal{}\<close>.
\<close>

definition evalVarDeclaration :: "evaluator \<Rightarrow> bool \<Rightarrow> string \<Rightarrow> Stmt \<Rightarrow> envp \<Rightarrow> state \<Rightarrow> result" where
  "evalVarDeclaration ev constant identifier val env st =
     (if val = NilStmt then DeclareVar env identifier NadaVal constant st
      else (case ev val env st of
              (Inl e, st1) \<Rightarrow> (Inl e, st1)
            | (Inr evaluatedValue, st1) \<Rightarrow> DeclareVar env identifier evaluatedValue constant st1))"

definition evalFunctionDeclaration :: "string \<Rightarrow> string list \<Rightarrow> Stmt list \<Rightarrow> envp \<Rightarrow> state \<Rightarrow> result" where
  "evalFunctionDeclaration name params body env st =
     DeclareVar env name (UserFunctionValue name params env body) True st"

definition evalIfStmt :: "evaluator \<Rightarrow> Stmt \<Rightarrow> Stmt list \<Rightarrow> envp \<Rightarrow> state \<Rightarrow> result" where
  "evalIfStmt ev condition body env st =
     (case ev condition env st of
        (Inl e, st1) \<Rightarrow> (Inl e, st1)
      | (Inr condVal, st1) \<Rightarrow>
          (case condVal of
             BoolVal boolCond \<Rightarrow>
               if boolCond then evalBlock ev NadaVal body env st1 else (Inr NadaVal, st1)
           | _ \<Rightarrow> (Inl (Error IfConditionNotBool), st1)))"

fun whileLoop :: "evaluator \<Rightarrow> nat \<Rightarrow> RuntimeVal \<Rightarrow> Stmt \<Rightarrow> Stmt list \<Rightarrow> envp \<Rightarrow> state \<Rightarrow> result" where
  "whileLoop ev 0 result condition body env st = (Inl OutOfFuel, st)"
| "whileLoop ev (Suc k) result condition body env st =
     (case ev condition env st of
        (Inl e, st1) \<Rightarrow> (Inl e, st1)
      | (Inr condVal, st1) \<Rightarrow>
          (case condVal of
             BoolVal boolCond \<Rightarrow>
               if \<not> boolCond then (Inr result, st1)
               else (case evalBlock ev result body env st1 of
                       (Inl e, st2) \<Rightarrow> (Inl e, st2)
                     | (Inr v, st2) \<Rightarrow> whileLoop ev k v condition body env st2)
           | _ \<Rightarrow> (Inl (Error WhileConditionNotBool), st1)))"

definition evalWhileStmt :: "evaluator \<Rightarrow> nat \<Rightarrow> Stmt \<Rightarrow> Stmt list \<Rightarrow> envp \<Rightarrow> state \<Rightarrow> result" where
  "evalWhileStmt ev k condition body env st = whileLoop ev k NadaVal condition body env st"

text \<open>
  \<open>whileLoop\<close> is the \<open>for { ... }\<close> loop of \<open>evalWhileStmt\<close>, which may run for ever; \<open>k\<close>
  bounds the number of times the condition is evaluated.
\<close>

definition evalForStmt :: "evaluator \<Rightarrow> Stmt \<Rightarrow> Stmt list \<Rightarrow> envp \<Rightarrow> state \<Rightarrow> result" where
  "evalForStmt ev condition body env st =
     (case ev condition env st of
        (Inl e, st1) \<Rightarrow> (Inl e, st1)
      | (Inr countVal, st1) \<Rightarrow>
          (case countVal of
             NumberVal numVal \<Rightarrow>
               forLoop (\<lambda>lastEvaluated s. evalBlock ev lastEvaluated body env s) 0 (go_int numVal) NilVal st1
           | _ \<Rightarrow> (Inl (Error ForCountNotNumber), st1)))"

definition evalReturnStmt :: "evaluator \<Rightarrow> Stmt \<Rightarrow> envp \<Rightarrow> state \<Rightarrow> result" where
  "evalReturnStmt ev val env st =
     (case ev val env st of
        (Inl e, st1) \<Rightarrow> (Inl e, st1)
      | (Inr v, st1) \<Rightarrow> (Inr (ReturnValue v), st1))"

subsection \<open>The type switch of Evaluate (runtime/interpreter.go)\<close>

definition dispatch :: "(real \<Rightarrow> string) \<Rightarrow> evaluator \<Rightarrow> nat \<Rightarrow> evaluator" where
  "dispatch ff ev k astNode env st =
     (case astNode of
        Program body \<Rightarrow> evalProgram ev body env st
      | NumericLiteral v \<Rightarrow> (Inr (NumberVal v), st)
      | StringLiteral v \<Rightarrow> (Inr (StringVal v), st)
      | Identifier symbol \<Rightarrow> evalIdentifier symbol env st
      | ObjectLiteral props \<Rightarrow> evalObjectExpr ev props env st
      | MemberExpr object property computed \<Rightarrow> evalMemberExpr ff ev object property computed env st
      | BinaryExpr left right operator \<Rightarrow> evalBinaryExpr ev left right operator env st
      | UnaryExpr operant operator \<Rightarrow> evalUnaryExpr ev operant operator env st
      | VarDeclaration constant identifier val \<Rightarrow> evalVarDeclaration ev constant identifier val env st
      | FunctionDeclaration name params body \<Rightarrow> evalFunctionDeclaration name params body env st
      | AssignmentExpr assignee val \<Rightarrow> evalAssignmentExpr ev assignee val env st
      | CallExpr args caller \<Rightarrow> evalCallExpr ff ev args caller env st
      | LogicalExpr left right operator \<Rightarrow> evalLogicalExpr ev left right operator env st
      | IfStmt condition body \<Rightarrow> evalIfStmt ev condition body env st
      | WhileStmt condition body \<Rightarrow> evalWhileStmt ev k condition body env st
      | ForStmt condition body \<Rightarrow> evalForStmt ev condition body env st
      | ReturnStmt val \<Rightarrow> evalReturnStmt ev val env st
      | _ \<Rightarrow> (Inl (Error (NodeNotAdded astNode)), st))"

primrec Evaluate :: "(real \<Rightarrow> string) \<Rightarrow> nat \<Rightarrow> evaluator" where
  "Evaluate ff 0 = (\<lambda>astNode env st. (Inl OutOfFuel, st))"
| "Evaluate ff (Suc n) = dispatch ff (Evaluate ff n) n"

text \<open>
  The default case of the switch is reached by a nil node and by a \<open>Property\<close>, the only
  node types without a case.
\<close>

section \<open>The lexer (frontend/lexer.go)\<close>

text \<open>
  The input of the lexer is the list of the runes that \<open>ReadRune\<close> delivers; a rune is a
  \<open>char\<close>, so the model covers source text whose runes lie below U+0100, and a string is
  the list of its runes. Reading from such a list never fails, so the \<open>error\<close> results
  of the source are always nil and are left out. Three token names are syntax of
  Isabelle/HOL and carry a suffix: \<open>INT_T\<close>, \<open>CHAR_T\<close>, \<open>CONST_T\<close>.
\<close>

datatype Token =
    EOF | ILLEGAL | IDENT | RETURN | INT_T | FLOAT | STRING | CHAR_T
  | VAR | CONST_T | OPENCURLY | CLOSECURLY | OPENPAREN | CLOSEPAREN | OPENBRACKET | CLOSEBRACKET
  | ADD | SUB | MUL | DIV | MOD | NOT | COLON | COMMA | DOT | DE | NE | GT | LT | GTE | LTE
  | IF | FOR | WHILE | FUN | AND | OR
  | EQUALS

text \<open>\<open>Token\<close> is an \<open>int\<close> in the source; \<open>tokenCode\<close> is the number that \<open>iota\<close> gives.\<close>

fun tokenCode :: "Token \<Rightarrow> int" where
  "tokenCode EOF = 0" | "tokenCode ILLEGAL = 1" | "tokenCode IDENT = 2" | "tokenCode RETURN = 3"
| "tokenCode INT_T = 4" | "tokenCode FLOAT = 5" | "tokenCode STRING = 6" | "tokenCode CHAR_T = 7"
| "tokenCode VAR = 8" | "tokenCode CONST_T = 9" | "tokenCode OPENCURLY = 10"
| "tokenCode CLOSECURLY = 11" | "tokenCode OPENPAREN = 12" | "tokenCode CLOSEPAREN = 13"
| "tokenCode OPENBRACKET = 14" | "tokenCode CLOSEBRACKET = 15" | "tokenCode ADD = 16"
| "tokenCode SUB = 17" | "tokenCode MUL = 18" | "tokenCode DIV = 19" | "tokenCode MOD = 20"
| "tokenCode NOT = 21" | "tokenCode COLON = 22" | "tokenCode COMMA = 23" | "tokenCode DOT = 24"
| "tokenCode DE = 25" | "tokenCode NE = 26" | "tokenCode GT = 27" | "tokenCode LT = 28"
| "tokenCode GTE = 29" | "tokenCode LTE = 30" | "tokenCode IF = 31" | "tokenCode FOR = 32"
| "tokenCode WHILE = 33" | "tokenCode FUN = 34" | "tokenCode AND = 35" | "tokenCode OR = 36"
| "tokenCode EQUALS = 37"

record Position =
  line :: int
  column :: int

datatype TokenItem = TokenItem Position Token string

record Lexer =
  pos :: Position
  reader :: string

definition NewLexer :: "string \<Rightarrow> Lexer" where
  "NewLexer input = \<lparr>pos = \<lparr>line = 1, column = 0\<rparr>, reader = input\<rparr>"

definition advanceColumn :: "Lexer \<Rightarrow> Lexer" where
  "advanceColumn l = l\<lparr>pos := (pos l)\<lparr>column := column (pos l) + 1\<rparr>\<rparr>"

definition resetPosition :: "Lexer \<Rightarrow> Lexer" where
  "resetPosition l = l\<lparr>pos := \<lparr>line = line (pos l) + 1, column = 0\<rparr>\<rparr>"

definition goBack :: "char \<Rightarrow> Lexer \<Rightarrow> Lexer" where
  "goBack r l = l\<lparr>pos := (pos l)\<lparr>column := column (pos l) - 1\<rparr>, reader := r # reader l\<rparr>"

text \<open>
  \<open>advanceColumn\<close> is the statement \<open>l.pos.column++\<close> that follows every successful
  \<open>ReadRune\<close>; \<open>goBack r\<close> unreads the rune \<open>r\<close> that was read last.

  The classes of package \<open>unicode\<close>, on the runes below U+0100.
\<close>

definition isDigit :: "char \<Rightarrow> bool" where
  "isDigit r = (let n = (of_char r :: nat) in 48 \<le> n \<and> n \<le> 57)"

definition isLetter :: "char \<Rightarrow> bool" where
  "isLetter r =
     (let n = (of_char r :: nat)
      in (65 \<le> n \<and> n \<le> 90) \<or> (97 \<le> n \<and> n \<le> 122) \<or> n = 170 \<or> n = 181 \<or> n = 186 \<or>
         (192 \<le> n \<and> n \<le> 214) \<or> (216 \<le> n \<and> n \<le> 246) \<or> (248 \<le> n \<and> n \<le> 255))"

definition isSpace :: "char \<Rightarrow> bool" where
  "isSpace r = (of_char r \<in> {9, 10, 11, 12, 13, 32, 133, 160 :: nat})"

function lexNumLoop :: "Lexer \<Rightarrow> string \<Rightarrow> Token \<Rightarrow> int \<Rightarrow> string \<times> Token \<times> Lexer" where
  "lexNumLoop l literal varType dotCount =
     (case reader l of
        [] \<Rightarrow> (literal, varType, l)
      | r # rest \<Rightarrow>
          (let l1 = advanceColumn (l\<lparr>reader := rest\<rparr>)
           in if isDigit r then lexNumLoop l1 (literal @ [r]) varType dotCount
              else if r = CHR ''.''
              then lexNumLoop l1 (literal @ [r]) (if dotCount = 0 then FLOAT else ILLEGAL) (dotCount + 1)
              else (literal, varType, goBack r l1)))"
  by pat_completeness auto
termination
  by (relation "measure (\<lambda>(l, literal, varType, dotCount). length (reader l))")
     (auto simp: advanceColumn_def)

definition lexNum :: "Lexer \<Rightarrow> string \<times> Token \<times> Lexer" where
  "lexNum l = lexNumLoop l [] INT_T 0"

function lexIdentLoop :: "Lexer \<Rightarrow> string \<Rightarrow> string \<times> Lexer" where
  "lexIdentLoop l literal =
     (case reader l of
        [] \<Rightarrow> (literal, l)
      | r # rest \<Rightarrow>
          (let l1 = advanceColumn (l\<lparr>reader := rest\<rparr>)
           in if isLetter r \<or> isDigit r \<or> r = CHR ''_'' then lexIdentLoop l1 (literal @ [r])
              else (literal, goBack r l1)))"
  by pat_completeness auto
termination
  by (relation "measure (\<lambda>(l, literal). length (reader l))") (auto simp: advanceColumn_def)

definition lexIdent :: "Lexer \<Rightarrow> string \<times> Lexer" where
  "lexIdent l = lexIdentLoop l []"

function lexStringLoop :: "Lexer \<Rightarrow> string \<Rightarrow> string \<times> Token \<times> Lexer" where
  "lexStringLoop l literal =
     (case reader l of
        [] \<Rightarrow> (literal, ILLEGAL, l)
      | r # rest \<Rightarrow>
          (let l1 = advanceColumn (l\<lparr>reader := rest\<rparr>)
           in if r = CHR 0x22 then (literal, STRING, l1)
              else lexStringLoop l1 (literal @ [r])))"
  by pat_completeness auto
termination
  by (relation "measure (\<lambda>(l, literal). length (reader l))") (auto simp: advanceColumn_def)

definition lexString :: "Lexer \<Rightarrow> string \<times> Token \<times> Lexer" where
  "lexString l =
     (case reader l of
        [] \<Rightarrow> ([], ILLEGAL, l)
      | r # rest \<Rightarrow>
          (let l1 = advanceColumn (l\<lparr>reader := rest\<rparr>)
           in if r \<noteq> CHR 0x22 then ([], ILLEGAL, l1) else lexStringLoop l1 []))"

text \<open>
  \<open>CHR 0x22\<close> is the double quote. \<open>Lex\<close> enters \<open>lexString\<close> on a double quote only,
  so the first two cases of \<open>lexString\<close> are never reached (in the first, at the end of
  the input, the source returns the read error).
\<close>

function lexEqualsLoop :: "Lexer \<Rightarrow> int \<Rightarrow> string \<Rightarrow> Lexer \<times> int \<times> string" where
  "lexEqualsLoop l equalCount lit =
     (case reader l of
        [] \<Rightarrow> (l, equalCount, lit)
      | r # rest \<Rightarrow>
          (let l1 = advanceColumn (l\<lparr>reader := rest\<rparr>)
           in if r = CHR ''='' then lexEqualsLoop l1 (equalCount + 1) (lit @ [r])
              else (goBack r l1, equalCount, lit)))"
  by pat_completeness auto
termination
  by (relation "measure (\<lambda>(l, equalCount, lit). length (reader l))") (auto simp: advanceColumn_def)

definition lexEquals :: "Lexer \<Rightarrow> string \<times> Token \<times> Lexer" where
  "lexEquals l =
     (let (l1, equalCount, lit) = lexEqualsLoop l 0 []
      in (lit, if equalCount = 1 then EQUALS else if equalCount = 2 then DE else ILLEGAL, l1))"

function lexNotLoop :: "Lexer \<Rightarrow> int \<Rightarrow> int \<Rightarrow> string \<Rightarrow> Lexer \<times> int \<times> int \<times> string" where
  "lexNotLoop l notCount equalCount lit =
     (case reader l of
        [] \<Rightarrow> (l, notCount, equalCount, lit)
      | r # rest \<Rightarrow>
          (let l1 = advanceColumn (l\<lparr>reader := rest\<rparr>)
           in if r = CHR ''!'' then lexNotLoop l1 (notCount + 1) equalCount (lit @ [r])
              else if r = CHR ''='' then lexNotLoop l1 notCount (equalCount + 1) (lit @ [r])
              else (goBack r l1, notCount, equalCount, lit)))"
  by pat_completeness auto
termination
  by (relation "measure (\<lambda>(l, notCount, equalCount, lit). length (reader l))")
     (auto simp: advanceColumn_def)

definition lexNot :: "Lexer \<Rightarrow> string \<times> Token \<times> Lexer" where
  "lexNot l =
     (let (l1, notCount, equalCount, lit) = lexNotLoop l 0 0 []
      in (lit,
          if notCount = 1 \<and> equalCount = 1 then NE
          else if notCount = 1 \<and> equalCount = 0 then NOT
          else ILLEGAL,
          l1))"

function lexAndLoop :: "Lexer \<Rightarrow> int \<Rightarrow> string \<Rightarrow> Lexer \<times> int \<times> string" where
  "lexAndLoop l andCount lit =
     (case reader l of
        [] \<Rightarrow> (l, andCount, lit)
      | r # rest \<Rightarrow>
          (let l1 = advanceColumn (l\<lparr>reader := rest\<rparr>)
           in if r = CHR ''&'' then lexAndLoop l1 (andCount + 1) (lit @ [r])
              else (goBack r l1, andCount, lit)))"
  by pat_completeness auto
termination
  by (relation "measure (\<lambda>(l, andCount, lit). length (reader l))") (auto simp: advanceColumn_def)

definition lexAnd :: "Lexer \<Rightarrow> string \<times> Token \<times> Lexer" where
  "lexAnd l =
     (let (l1, andCount, lit) = lexAndLoop l 0 []
      in (lit, if andCount = 2 then AND else ILLEGAL, l1))"

function lexOrLoop :: "Lexer \<Rightarrow> int \<Rightarrow> string \<Rightarrow> Lexer \<times> int \<times> string" where
  "lexOrLoop l orCount lit =
     (case reader l of
        [] \<Rightarrow> (l, orCount, lit)
      | r # rest \<Rightarrow>
          (let l1 = advanceColumn (l\<lparr>reader := rest\<rparr>)
           in if r = CHR ''|'' then lexOrLoop l1 (orCount + 1) (lit @ [r])
              else (goBack r l1, orCount, lit)))"
  by pat_completeness auto
termination
  by (relation "measure (\<lambda>(l, orCount, lit). length (reader l))") (auto simp: advanceColumn_def)

definition lexOr :: "Lexer \<Rightarrow> string \<times> Token \<times> Lexer" where
  "lexOr l =
     (let orType = EOF;
          (l1, orCount, lit) = lexOrLoop l 0 []
      in (lit, if tokenCode orType = 2 then OR else ILLEGAL, l1))"

text \<open>
  \<open>var orType Token\<close> starts as the zero value of \<open>Token\<close>, which is \<open>EOF\<close>; the test
  after the loop of \<open>lexOr\<close> is \<open>orType == 2\<close>, on the token and not on \<open>orCount\<close>.
\<close>

function lexLessThanLoop :: "Lexer \<Rightarrow> int \<Rightarrow> int \<Rightarrow> string \<Rightarrow> Lexer \<times> int \<times> int \<times> string" where
  "lexLessThanLoop l ltCount equalCount lit =
     (case reader l of
        [] \<Rightarrow> (l, ltCount, equalCount, lit)
      | r # rest \<Rightarrow>
          (let l1 = advanceColumn (l\<lparr>reader := rest\<rparr>)
           in if r = CHR ''<'' then lexLessThanLoop l1 (ltCount + 1) equalCount (lit @ [r])
              else if r = CHR ''='' then lexLessThanLoop l1 ltCount (equalCount + 1) (lit @ [r])
              else (goBack r l1, ltCount, equalCount, lit)))"
  by pat_completeness auto
termination
  by (relation "measure (\<lambda>(l, ltCount, equalCount, lit). length (reader l))")
     (auto simp: advanceColumn_def)

definition lexLessThan :: "Lexer \<Rightarrow> string \<times> Token \<times> Lexer" where
  "lexLessThan l =
     (let (l1, ltCount, equalCount, lit) = lexLessThanLoop l 0 0 []
      in (lit,
          if ltCount = 1 \<and> equalCount = 1 then LTE
          else if ltCount = 1 \<and> equalCount = 0 then LT
          else ILLEGAL,
          l1))"

function lexGreaterThanLoop :: "Lexer \<Rightarrow> int \<Rightarrow> int \<Rightarrow> string \<Rightarrow> Lexer \<times> int \<times> int \<times> string" where
  "lexGreaterThanLoop l gtCount equalCount lit =
     (case reader l of
        [] \<Rightarrow> (l, gtCount, equalCount, lit)
      | r # rest \<Rightarrow>
          (let l1 = advanceColumn (l\<lparr>reader := rest\<rparr>)
           in if r = CHR ''>'' then lexGreaterThanLoop l1 (gtCount + 1) equalCount (lit @ [r])
              else if r = CHR ''='' then lexGreaterThanLoop l1 gtCount (equalCount + 1) (lit @ [r])
              else (goBack r l1, gtCount, equalCount, lit)))"
  by pat_completeness auto
termination
  by (relation "measure (\<lambda>(l, gtCount, equalCount, lit). length (reader l))")
     (auto simp: advanceColumn_def)

definition lexGreaterThan :: "Lexer \<Rightarrow> string \<times> Token \<times> Lexer" where
  "lexGreaterThan l =
     (let (l1, gtCount, equalCount, lit) = lexGreaterThanLoop l 0 0 []
      in (lit,
          if gtCount = 1 \<and> equalCount = 1 then GTE
          else if gtCount = 1 \<and> equalCount = 0 then GT
          else ILLEGAL,
          l1))"

declare lexNumLoop.simps [simp del] lexIdentLoop.simps [simp del] lexStringLoop.simps [simp del]
  lexEqualsLoop.simps [simp del] lexNotLoop.simps [simp del] lexAndLoop.simps [simp del]
  lexOrLoop.simps [simp del] lexLessThanLoop.simps [simp del] lexGreaterThanLoop.simps [simp del]

subsection \<open>Every helper of the lexer consumes the rune it is entered on\<close>

text \<open>
  A loop of the lexer leaves no more runes than it found. \<open>Lex\<close> unreads the rune it has
  just read and calls a helper, which reads that rune again and keeps it; this is why
  \<open>Lex\<close> terminates.
\<close>

lemma lexNumLoop_length: "length (reader (snd (snd (lexNumLoop l literal varType dotCount)))) \<le> length (reader l)"
proof (induction l literal varType dotCount rule: lexNumLoop.induct)
  case (1 l literal varType dotCount)
  show ?case
    apply (subst lexNumLoop.simps)
    using 1 by (auto simp: Let_def goBack_def advanceColumn_def split: list.splits intro!: le_SucI)
qed

lemma lexIdentLoop_length: "length (reader (snd (lexIdentLoop l literal))) \<le> length (reader l)"
proof (induction l literal rule: lexIdentLoop.induct)
  case (1 l literal)
  show ?case
    apply (subst lexIdentLoop.simps)
    using 1 by (auto simp: Let_def goBack_def advanceColumn_def split: list.splits intro!: le_SucI)
qed

lemma lexStringLoop_length: "length (reader (snd (snd (lexStringLoop l literal)))) \<le> length (reader l)"
proof (induction l literal rule: lexStringLoop.induct)
  case (1 l literal)
  show ?case
    apply (subst lexStringLoop.simps)
    using 1 by (auto simp: Let_def goBack_def advanceColumn_def split: list.splits intro!: le_SucI)
qed

lemma lexEqualsLoop_length: "length (reader (fst (lexEqualsLoop l equalCount lit))) \<le> length (reader l)"
proof (induction l equalCount lit rule: lexEqualsLoop.induct)
  case (1 l equalCount lit)
  show ?case
    apply (subst lexEqualsLoop.simps)
    using 1 by (auto simp: Let_def goBack_def advanceColumn_def split: list.splits intro!: le_SucI)
qed

lemma lexNotLoop_length: "length (reader (fst (lexNotLoop l notCount equalCount lit))) \<le> length (reader l)"
proof (induction l notCount equalCount lit rule: lexNotLoop.induct)
  case (1 l notCount equalCount lit)
  show ?case
    apply (subst lexNotLoop.simps)
    using 1 by (auto simp: Let_def goBack_def advanceColumn_def split: list.splits intro!: le_SucI)
qed

lemma lexAndLoop_length: "length (reader (fst (lexAndLoop l andCount lit))) \<le> length (reader l)"
proof (induction l andCount lit rule: lexAndLoop.induct)
  case (1 l andCount lit)
  show ?case
    apply (subst lexAndLoop.simps)
    using 1 by (auto simp: Let_def goBack_def advanceColumn_def split: list.splits intro!: le_SucI)
qed

lemma lexOrLoop_length: "length (reader (fst (lexOrLoop l orCount lit))) \<le> length (reader l)"
proof (induction l orCount lit rule: lexOrLoop.induct)
  case (1 l orCount lit)
  show ?case
    apply (subst lexOrLoop.simps)
    using 1 by (auto simp: Let_def goBack_def advanceColumn_def split: list.splits intro!: le_SucI)
qed

lemma lexLessThanLoop_length: "length (reader (fst (lexLessThanLoop l ltCount equalCount lit))) \<le> length (reader l)"
proof (induction l ltCount equalCount lit rule: lexLessThanLoop.induct)
  case (1 l ltCount equalCount lit)
  show ?case
    apply (subst lexLessThanLoop.simps)
    using 1 by (auto simp: Let_def goBack_def advanceColumn_def split: list.splits intro!: le_SucI)
qed

lemma lexGreaterThanLoop_length: "length (reader (fst (lexGreaterThanLoop l gtCount equalCount lit))) \<le> length (reader l)"
proof (induction l gtCount equalCount lit rule: lexGreaterThanLoop.induct)
  case (1 l gtCount equalCount lit)
  show ?case
    apply (subst lexGreaterThanLoop.simps)
    using 1 by (auto simp: Let_def goBack_def advanceColumn_def split: list.splits intro!: le_SucI)
qed

lemma lexEquals_consumes:
  "reader l = CHR ''='' # rest \<Longrightarrow> length (reader (snd (snd (lexEquals l)))) \<le> length rest"
  unfolding lexEquals_def
  apply (subst lexEqualsLoop.simps)
  using lexEqualsLoop_length [of "advanceColumn (l\<lparr>reader := rest\<rparr>)" 1 "[CHR ''='']"]
  by (auto simp: Let_def advanceColumn_def split: prod.splits)

lemma lexNot_consumes:
  "reader l = CHR ''!'' # rest \<Longrightarrow> length (reader (snd (snd (lexNot l)))) \<le> length rest"
  unfolding lexNot_def
  apply (subst lexNotLoop.simps)
  using lexNotLoop_length [of "advanceColumn (l\<lparr>reader := rest\<rparr>)" 1 0 "[CHR ''!'']"]
  by (auto simp: Let_def advanceColumn_def split: prod.splits)

lemma lexAnd_consumes:
  "reader l = CHR ''&'' # rest \<Longrightarrow> length (reader (snd (snd (lexAnd l)))) \<le> length rest"
  unfolding lexAnd_def
  apply (subst lexAndLoop.simps)
  using lexAndLoop_length [of "advanceColumn (l\<lparr>reader := rest\<rparr>)" 1 "[CHR ''&'']"]
  by (auto simp: Let_def advanceColumn_def split: prod.splits)

lemma lexOr_consumes:
  "reader l = CHR ''|'' # rest \<Longrightarrow> length (reader (snd (snd (lexOr l)))) \<le> length rest"
  unfolding lexOr_def
  apply (subst lexOrLoop.simps)
  using lexOrLoop_length [of "advanceColumn (l\<lparr>reader := rest\<rparr>)" 1 "[CHR ''|'']"]
  by (auto simp: Let_def advanceColumn_def split: prod.splits)

lemma lexLessThan_consumes:
  "reader l = CHR ''<'' # rest \<Longrightarrow> length (reader (snd (snd (lexLessThan l)))) \<le> length rest"
  unfolding lexLessThan_def
  apply (subst lexLessThanLoop.simps)
  using lexLessThanLoop_length [of "advanceColumn (l\<lparr>reader := rest\<rparr>)" 1 0 "[CHR ''<'']"]
  by (auto simp: Let_def advanceColumn_def split: prod.splits)

lemma lexGreaterThan_consumes:
  "reader l = CHR ''>'' # rest \<Longrightarrow> length (reader (snd (snd (lexGreaterThan l)))) \<le> length rest"
  unfolding lexGreaterThan_def
  apply (subst lexGreaterThanLoop.simps)
  using lexGreaterThanLoop_length [of "advanceColumn (l\<lparr>reader := rest\<rparr>)" 1 0 "[CHR ''>'']"]
  by (auto simp: Let_def advanceColumn_def split: prod.splits)

lemma lexNum_consumes:
  "reader l = r # rest \<Longrightarrow> isDigit r \<Longrightarrow> length (reader (snd (snd (lexNum l)))) \<le> length rest"
  unfolding lexNum_def
  apply (subst lexNumLoop.simps)
  using lexNumLoop_length [of "advanceColumn (l\<lparr>reader := rest\<rparr>)" "[r]" INT_T 0]
  by (auto simp: Let_def advanceColumn_def split: prod.splits)

lemma lexIdent_consumes:
  "reader l = r # rest \<Longrightarrow> isLetter r \<Longrightarrow> length (reader (snd (lexIdent l))) \<le> length rest"
  unfolding lexIdent_def
  apply (subst lexIdentLoop.simps)
  using lexIdentLoop_length [of "advanceColumn (l\<lparr>reader := rest\<rparr>)" "[r]"]
  by (auto simp: Let_def advanceColumn_def split: prod.splits)

lemma lexString_consumes:
  "reader l = r # rest \<Longrightarrow> length (reader (snd (snd (lexString l)))) \<le> length rest"
  unfolding lexString_def
  using lexStringLoop_length [of "advanceColumn (l\<lparr>reader := rest\<rparr>)" "[]"]
  by (auto simp: Let_def advanceColumn_def split: prod.splits)

subsection \<open>The main loop\<close>

definition singleCharToken :: "char \<Rightarrow> Token option" where
  "singleCharToken r =
     (if r = CHR ''+'' then Some ADD
      else if r = CHR ''-'' then Some SUB
      else if r = CHR ''*'' then Some MUL
      else if r = CHR ''/'' then Some DIV
      else if r = CHR ''%'' then Some MOD
      else if r = CHR ''('' then Some OPENPAREN
      else if r = CHR '')'' then Some CLOSEPAREN
      else if r = CHR ''{'' then Some OPENCURLY
      else if r = CHR ''}'' then Some CLOSECURLY
      else if r = CHR ''['' then Some OPENBRACKET
      else if r = CHR '']'' then Some CLOSEBRACKET
      else if r = CHR '':'' then Some COLON
      else if r = CHR '','' then Some COMMA
      else if r = CHR ''.'' then Some DOT
      else None)"

definition keyword :: "string \<Rightarrow> Token" where
  "keyword lit =
     (if lit \<in> {''func'', ''fun'', ''fn'', ''funky'', ''def''} then FUN
      else if lit = ''if'' then IF
      else if lit = ''for'' then FOR
      else if lit \<in> {''while'', ''loop'', ''forever''} then WHILE
      else if lit \<in> {''var'', ''val'', ''define'', ''let''} then VAR
      else if lit = ''const'' then CONST_T
      else if lit \<in> {''and'', ''plus''} then AND
      else if lit \<in> {''or'', ''perhaps''} then OR
      else if lit = ''not'' then NOT
      else if lit = ''return'' then RETURN
      else IDENT)"

text \<open>
  \<open>singleCharToken\<close> collects the cases of the switch of \<open>Lex\<close> that append one token
  for one rune, and \<open>keyword\<close> is the switch on the literal of an identifier. The second
  literal of its \<open>IF\<close> case is a rune above U+0100, which is not a letter, so no
  identifier is equal to it.
\<close>

function Lex :: "Lexer \<Rightarrow> TokenItem list \<Rightarrow> TokenItem list" where
  "Lex l tokenList =
     (case reader l of
        [] \<Rightarrow> tokenList @ [TokenItem \<lparr>line = line (pos l), column = column (pos l)\<rparr> EOF []]
      | r # rest \<Rightarrow>
          (let l1 = advanceColumn (l\<lparr>reader := rest\<rparr>)
           in if r = CHR 0x0A then Lex (resetPosition l1) tokenList
              else (case singleCharToken r of
                      Some t \<Rightarrow> Lex l1 (tokenList @ [TokenItem (pos l1) t [r]])
                    | None \<Rightarrow>
                        if r = CHR ''=''
                        then (let (lit, equalType, l2) = lexEquals (goBack r l1)
                              in Lex l2 (tokenList @ [TokenItem (pos l1) equalType lit]))
                        else if r = CHR ''!''
                        then (let (lit, notType, l2) = lexNot (goBack r l1)
                              in Lex l2 (tokenList @ [TokenItem (pos l1) notType lit]))
                        else if r = CHR ''&''
                        then (let (lit, andType, l2) = lexAnd (goBack r l1)
                              in Lex l2 (tokenList @ [TokenItem (pos l1) andType lit]))
                        else if r = CHR ''|''
                        then (let (lit, orType, l2) = lexOr (goBack r l1)
                              in Lex l2 (tokenList @ [TokenItem (pos l1) orType lit]))
                        else if r = CHR ''<''
                        then (let (lit, ltType, l2) = lexLessThan (goBack r l1)
                              in Lex l2 (tokenList @ [TokenItem (pos l1) ltType lit]))
                        else if r = CHR ''>''
                        then (let (lit, gtType, l2) = lexGreaterThan (goBack r l1)
                              in Lex l2 (tokenList @ [TokenItem (pos l1) gtType lit]))
                        else if isSpace r then Lex l1 tokenList
                        else if isDigit r
                        then (let (lit, varType, l2) = lexNum (goBack r l1)
                              in Lex l2 (tokenList @ [TokenItem (pos l1) varType lit]))
                        else if isLetter r
                        then (let (lit, l2) = lexIdent (goBack r l1)
                              in Lex l2 (tokenList @ [TokenItem (pos l1) (keyword lit) lit]))
                        else if r = CHR 0x22
                        then (let (lit, varType, l2) = lexString (goBack r l1)
                              in Lex l2 (tokenList @ [TokenItem (pos l1) varType lit]))
                        else Lex l1 (tokenList @ [TokenItem (pos l1) ILLEGAL [r]]))))"
  by pat_completeness auto
termination
proof (relation "measure (\<lambda>(l, tokenList). length (reader l))", goal_cases)
  case 1
  show ?case by simp
next
  case 2
  then show ?case by (simp add: advanceColumn_def resetPosition_def)
next
  case (3 l tokenList r rest l1 res lit y ty l2)
  then show ?case
    using lexEquals_consumes [of "goBack r l1" rest]
    by (cases "lexEquals (goBack r l1)") (auto simp: goBack_def advanceColumn_def)
next
  case (4 l tokenList r rest l1 res lit y ty l2)
  then show ?case
    using lexNot_consumes [of "goBack r l1" rest]
    by (cases "lexNot (goBack r l1)") (auto simp: goBack_def advanceColumn_def)
next
  case (5 l tokenList r rest l1 res lit y ty l2)
  then show ?case
    using lexAnd_consumes [of "goBack r l1" rest]
    by (cases "lexAnd (goBack r l1)") (auto simp: goBack_def advanceColumn_def)
next
  case (6 l tokenList r rest l1 res lit y ty l2)
  then show ?case
    using lexOr_consumes [of "goBack r l1" rest]
    by (cases "lexOr (goBack r l1)") (auto simp: goBack_def advanceColumn_def)
next
  case (7 l tokenList r rest l1 res lit y ty l2)
  then show ?case
    using lexLessThan_consumes [of "goBack r l1" rest]
    by (cases "lexLessThan (goBack r l1)") (auto simp: goBack_def advanceColumn_def)
next
  case (8 l tokenList r rest l1 res lit y ty l2)
  then show ?case
    using lexGreaterThan_consumes [of "goBack r l1" rest]
    by (cases "lexGreaterThan (goBack r l1)") (auto simp: goBack_def advanceColumn_def)
next
  case 9
  then show ?case by (simp add: advanceColumn_def)
next
  case (10 l tokenList r rest l1 res lit y ty l2)
  then show ?case
    using lexNum_consumes [of "goBack r l1" r rest]
    by (cases "lexNum (goBack r l1)") (auto simp: goBack_def advanceColumn_def)
next
  case (11 l tokenList r rest l1 res lit l2)
  then show ?case
    using lexIdent_consumes [of "goBack r l1" r rest]
    by (cases "lexIdent (goBack r l1)") (auto simp: goBack_def advanceColumn_def)
next
  case (12 l tokenList r rest l1 res lit y ty l2)
  then show ?case
    using lexString_consumes [of "goBack r l1" r rest]
    by (cases "lexString (goBack r l1)") (auto simp: goBack_def advanceColumn_def)
next
  case 13
  then show ?case by (simp add: advanceColumn_def)
next
  case 14
  then show ?case by (simp add: advanceColumn_def)
qed

declare Lex.simps [simp del]

section \<open>Running a program\<close>

text \<open>
  \<open>main\<close> creates the global environment with \<open>NewEnvironment(nil)\<close> and evaluates the
  program in it. \<open>globalStart\<close> is that environment in a heap that holds nothing else,
  and \<open>run\<close> the evaluation of a program from there.

  \<open>FormatFloat_integral\<close> is an instance of the float formatting function for running the
  model on concrete programs: it agrees with \<open>strconv.FormatFloat(x, 'f', -1, 64)\<close> on
  whole numbers, which it prints in decimal. The general results hold for every
  formatting function.
\<close>

fun digits :: "nat \<Rightarrow> string" where
  "digits n =
     (if n < 10 then [''0123456789'' ! n] else digits (n div 10) @ [''0123456789'' ! (n mod 10)])"

declare digits.simps [simp del]

definition FormatFloat_integral :: "real \<Rightarrow> string" where
  "FormatFloat_integral x = (if x < 0 then ''-'' else []) @ digits (nat \<lfloor>\<bar>x\<bar>\<rfloor>)"

definition emptyHeap :: state where
  "emptyHeap =
     \<lparr>envs = (\<lambda>p. \<lparr>global = False, parent = None, variables = Map.empty, constants = {}\<rparr>),
      nextp = 0, stdout = []\<rparr>"

definition globalStart :: "envp \<times> state" where
  "globalStart = NewEnvironment None emptyHeap"

definition run :: "(real \<Rightarrow> string) \<Rightarrow> nat \<Rightarrow> Stmt \<Rightarrow> result" where
  "run ff n program = Evaluate ff n program (fst globalStart) (snd globalStart)"

text \<open>
  For running examples: \<open>demoEval\<close> is the evaluator with room for two nested calls, and
  \<open>demoState\<close> the state of the global environment after the statement \<open>val f = print\<close>.
\<close>

definition demoEval :: evaluator where
  "demoEval = Evaluate FormatFloat_integral (Suc (Suc 0))"

definition demoState :: state where
  "demoState =
     snd (demoEval (VarDeclaration False ''f'' (Identifier ''print'')) (fst globalStart) (snd globalStart))"

section \<open>Two readings of the specification, for comparison with the code\<close>

text \<open>
  The specification says of a \<open>for\<close> statement: ``evaluate body max(0, n) times in the
  enclosing scope''. \<open>repeatBody k body\<close> runs \<open>body\<close> \<open>k\<close> times in a row, each round
  from the value and the state that the round before left, and stops at the first
  failure.
\<close>

fun repeatBody ::
  "nat \<Rightarrow> (RuntimeVal \<Rightarrow> 's \<Rightarrow> (failure + RuntimeVal) \<times> 's) \<Rightarrow> RuntimeVal \<Rightarrow> 's
     \<Rightarrow> (failure + RuntimeVal) \<times> 's" where
  "repeatBody 0 body lastEvaluated st = (Inr lastEvaluated, st)"
| "repeatBody (Suc k) body lastEvaluated st =
     (case body lastEvaluated st of
        (Inl e, st1) \<Rightarrow> (Inl e, st1)
      | (Inr v, st1) \<Rightarrow> repeatBody k body v st1)"

text \<open>
  The specification says of a call: ``evaluate callee and then arguments in order''.
  \<open>evalCallExpr_calleeFirst\<close> is \<open>evalCallExpr\<close> with the two steps in that order.
\<close>

definition evalCallExpr_calleeFirst ::
  "(real \<Rightarrow> string) \<Rightarrow> evaluator \<Rightarrow> Stmt list \<Rightarrow> Stmt \<Rightarrow> envp \<Rightarrow> state \<Rightarrow> result" where
  "evalCallExpr_calleeFirst ff ev args caller env st =
     (case ev caller env st of
        (Inl e, st1) \<Rightarrow> (Inl e, st1)
      | (Inr fn, st1) \<Rightarrow>
          (case evalArgs ev args env st1 of
             (Inl e, st2) \<Rightarrow> (Inl e, st2)
           | (Inr argVals, st2) \<Rightarrow> callFunction ff ev fn argVals env st2))"

section \<open>Properties\<close>

subsection \<open>Auxiliary facts\<close>

lemmas eval_defs =
  dispatch_def evalProgram_def evalFunctionDeclaration_def evalIdentifier_def LookupVar_def
  resolve.simps callFunction_def evalReturnStmt_def evalVarDeclaration_def evalAssignmentExpr_def
  AssignVal_def evalLogicalExpr_def evalUnaryExpr_def evalIfStmt_def evalWhileStmt_def
  evalObjectExpr_def evalMemberExpr_def callNative_def String_def

lemmas start_defs =
  run_def globalStart_def NewEnvironment_def emptyHeap_def setupGlobalScope_def DeclareVar_def
  setVar_def Let_def

lemmas demo_defs = eval_defs start_defs demoEval_def demoState_def

lemma forLoop_repeatBody:
  "forLoop body i limit lastEvaluated st = repeatBody (nat (limit - i)) body lastEvaluated st"
proof (induction body i limit lastEvaluated st rule: forLoop.induct)
  case (1 body i limit lastEvaluated st)
  show ?case
  proof (cases "i < limit")
    case True
    then have n: "nat (limit - i) = Suc (nat (limit - (i + 1)))" by simp
    show ?thesis
      using True 1 by (subst forLoop.simps) (simp add: n split: prod.splits sum.splits)
  next
    case False
    then show ?thesis by (subst forLoop.simps) simp
  qed
qed

lemma go_int_in_range: "- (2 ^ 63) \<le> trunc x \<Longrightarrow> trunc x < 2 ^ 63 \<Longrightarrow> go_int x = trunc x"
  by (simp add: go_int_def)

lemma go_int_below_one: "x < 1 \<Longrightarrow> go_int x \<le> 0"
  by (auto simp: go_int_def trunc_def Let_def)

lemma trunc_of_int: "trunc (of_int k) = k"
  by (simp add: trunc_def)

lemma evalBlock_append:
  "evalBlock ev l (ss @ ts) env st =
     (case evalBlock ev l ss env st of
        (Inl e, st1) \<Rightarrow> (Inl e, st1)
      | (Inr u, st1) \<Rightarrow> evalBlock ev u ts env st1)"
  by (induction ss arbitrary: l st) (auto split: prod.splits sum.splits)

lemma evalArgs_append:
  "evalArgs ev (as @ bs) env st =
     (case evalArgs ev as env st of
        (Inl e, st1) \<Rightarrow> (Inl e, st1)
      | (Inr vs, st1) \<Rightarrow>
          (case evalArgs ev bs env st1 of
             (Inl e, st2) \<Rightarrow> (Inl e, st2)
           | (Inr ws, st2) \<Rightarrow> (Inr (vs @ ws), st2)))"
  by (induction as arbitrary: st) (auto split: prod.splits sum.splits)

subsection \<open>Equality of values\<close>

text \<open>
  On the values it has a case for, \<open>deepEqual\<close> is reflexive: the loop over the
  properties of an object finds every key of the object in the object itself.
\<close>

lemma objectsEqualLoop_self:
  assumes "distinct (map fst b)" "set a \<subseteq> set b"
      and "\<And>k v. (k, v) \<in> set a \<Longrightarrow> deepEqual v v"
  shows "objectsEqualLoop a b"
  using assms
proof (induction a)
  case Nil
  then show ?case by simp
next
  case (Cons p a)
  obtain k v where p: "p = (k, v)" by (cases p)
  from Cons.prems p have "map_of b k = Some v" by (simp add: map_of_is_SomeI)
  moreover have "deepEqual v v" using Cons.prems(3) [of k v] p by simp
  moreover have "objectsEqualLoop a b" using Cons.prems by (intro Cons.IH) auto
  ultimately show ?case using p by simp
qed

lemma deepEqual_refl_comparable: "comparable v \<Longrightarrow> deepEqual v v"
proof (induction v)
  case (ObjectVal props name)
  have "\<And>k v. (k, v) \<in> set props \<Longrightarrow> deepEqual v v"
  proof -
    fix k v assume kv: "(k, v) \<in> set props"
    then have "comparable v" using ObjectVal.prems by (auto simp: list_all_iff)
    then show "deepEqual v v" using ObjectVal.IH kv by auto
  qed
  then have "objectsEqualLoop props props"
    using ObjectVal.prems by (intro objectsEqualLoop_self) auto
  then show ?case by (simp add: deepEqual.simps(1))
qed (simp_all add: deepEqual.simps(1))

text \<open>
  Claim C1 (deepEqual is reflexive on every runtime value, strings, objects and functions
  included). The type switch of \<open>deepEqual\<close> has cases for numbers, booleans, nada and
  objects only, so a string is not equal to itself: \<open>deepEqual\<close> of the string \<open>a\<close> with
  itself is false, the source expression \<open>"a" == "a"\<close> evaluates to false, and no string
  and no function value is equal to any value.
\<close>

theorem deepEqual_string_not_reflexive:
  "deepEqual (StringVal ''a'') (StringVal ''a'') = False
   \<and> Evaluate ff (Suc (Suc n)) (LogicalExpr (StringLiteral ''a'') (StringLiteral ''a'') ''=='') env st
       = (Inr (BoolVal False), st)
   \<and> deepEqual (StringVal s) v = False
   \<and> deepEqual (NativeFunctionValue call name) v = False
   \<and> deepEqual (UserFunctionValue name params declEnv body) v = False"
  by (simp add: dispatch_def evalLogicalExpr_def deepEqual.simps(1))

subsection \<open>Arithmetic\<close>

text \<open>
  Claim C6 (a division whose right operand is zero yields the number 0 and no error; the
  program \<open>1/0\<close> evaluates to 0). \<open>evalNumericBinaryExpr\<close> returns 0 for every left
  operand; so does a \<open>BinaryExpr\<close> with operator \<open>/\<close> whose operands evaluate to a number
  and to the number 0; and the program whose only statement is \<open>1/0\<close> has the value 0.
\<close>

theorem division_by_zero_yields_zero:
  "evalNumericBinaryExpr leftSide 0 ''/'' = Inr (NumberVal 0)
   \<and> (ev left env st = (Inr (NumberVal leftSide), st1) \<and> ev right env st1 = (Inr (NumberVal 0), st2)
        \<longrightarrow> evalBinaryExpr ev left right ''/'' env st = (Inr (NumberVal 0), st2))
   \<and> Evaluate ff (Suc (Suc (Suc n))) (Program [BinaryExpr (NumericLiteral 1) (NumericLiteral 0) ''/'']) env st
       = (Inr (NumberVal 0), st)"
  by (simp add: evalNumericBinaryExpr_def evalBinaryExpr_def dispatch_def evalProgram_def)

theorem division_by_zero_yields_zero_witness:
  "Evaluate FormatFloat_integral (Suc 0) (NumericLiteral 7) (fst globalStart) (snd globalStart)
     = (Inr (NumberVal 7), snd globalStart)
   \<and> Evaluate FormatFloat_integral (Suc 0) (NumericLiteral 0) (fst globalStart) (snd globalStart)
     = (Inr (NumberVal 0), snd globalStart)
   \<and> evalBinaryExpr (Evaluate FormatFloat_integral (Suc 0)) (NumericLiteral 7) (NumericLiteral 0) ''/''
       (fst globalStart) (snd globalStart)
     = (Inr (NumberVal 0), snd globalStart)"
  using division_by_zero_yields_zero
    [where ev = "Evaluate FormatFloat_integral (Suc 0)" and left = "NumericLiteral 7"
       and right = "NumericLiteral 0" and leftSide = 7 and env = "fst globalStart"
       and st = "snd globalStart" and ?st1.0 = "snd globalStart" and ?st2.0 = "snd globalStart"]
  by (simp add: dispatch_def)

text \<open>
  Claim C10 (operator \<open>%\<close> with a right operand that truncates to 0 gives neither a value
  nor a returned error: the integer remainder is taken with no test for zero, unlike
  \<open>/\<close>, and the host panics with a division by zero). The result is the panic, both of
  \<open>evalNumericBinaryExpr\<close> and of a \<open>BinaryExpr\<close> whose operands evaluate to numbers.
\<close>

theorem modulo_by_zero_panics:
  assumes "trunc rightSide = 0"
  shows "evalNumericBinaryExpr leftSide rightSide ''%'' = Inl (Panic IntegerDivideByZero)
   \<and> (ev left env st = (Inr (NumberVal leftSide), st1) \<and> ev right env st1 = (Inr (NumberVal rightSide), st2)
        \<longrightarrow> evalBinaryExpr ev left right ''%'' env st = (Inl (Panic IntegerDivideByZero), st2))"
  using assms by (simp add: evalNumericBinaryExpr_def evalBinaryExpr_def go_int_def)

theorem modulo_by_zero_panics_witness:
  "trunc (1 / 2) = 0
   \<and> evalNumericBinaryExpr 5 (1 / 2) ''%'' = Inl (Panic IntegerDivideByZero)
   \<and> evalBinaryExpr (Evaluate FormatFloat_integral (Suc 0)) (NumericLiteral 5) (NumericLiteral (1 / 2)) ''%''
       (fst globalStart) (snd globalStart)
     = (Inl (Panic IntegerDivideByZero), snd globalStart)"
proof -
  have h: "trunc (1 / 2) = 0" by (simp add: trunc_def)
  show ?thesis
    using h modulo_by_zero_panics
      [OF h, where ev = "Evaluate FormatFloat_integral (Suc 0)" and left = "NumericLiteral 5"
         and right = "NumericLiteral (1 / 2)" and leftSide = 5 and env = "fst globalStart"
         and st = "snd globalStart" and ?st1.0 = "snd globalStart" and ?st2.0 = "snd globalStart"]
    by (simp add: dispatch_def)
qed

text \<open>
  Claim C8 (unary \<open>!\<close> on a number always gives the number 1, whatever the operand: the
  test is made on a local that is still zero). \<open>evalNumericUnaryExpr\<close> returns 1 for
  every operand, and so does a \<open>UnaryExpr\<close> with operator \<open>!\<close> whose operand evaluates
  to a number.
\<close>

theorem unary_not_always_one:
  "evalNumericUnaryExpr operant ''!'' = NumberVal 1
   \<and> (ev e env st = (Inr (NumberVal operant), st1)
        \<longrightarrow> evalUnaryExpr ev e ''!'' env st = (Inr (NumberVal 1), st1))"
  by (simp add: evalNumericUnaryExpr_def evalUnaryExpr_def)

theorem unary_not_always_one_witness:
  "Evaluate FormatFloat_integral (Suc 0) (NumericLiteral 5) (fst globalStart) (snd globalStart)
     = (Inr (NumberVal 5), snd globalStart)
   \<and> evalUnaryExpr (Evaluate FormatFloat_integral (Suc 0)) (NumericLiteral 5) ''!''
       (fst globalStart) (snd globalStart)
     = (Inr (NumberVal 1), snd globalStart)"
  using unary_not_always_one
    [where ev = "Evaluate FormatFloat_integral (Suc 0)" and e = "NumericLiteral 5" and operant = 5
       and env = "fst globalStart" and st = "snd globalStart" and ?st1.0 = "snd globalStart"]
  by (simp add: dispatch_def)

subsection \<open>Programs and return statements\<close>

text \<open>
  Claim C9 (a program with an empty body evaluates to Nada; the value of a program with
  statements is the value of its last statement). The first half fails on the program
  with no statement: \<open>evalProgram\<close> returns its \<open>lastEvaluated\<close>, which has no initial
  value, so the result is the nil interface value, and that is not \<open>NadaVal\<close>.
\<close>

theorem empty_program_counterexample:
  "run FormatFloat_integral (Suc 0) (Program []) = (Inr NilVal, snd globalStart)
   \<and> NilVal \<noteq> NadaVal"
  by (simp add: run_def dispatch_def evalProgram_def)

text \<open>
  Claim C9, as amended: a program with an empty body evaluates to the nil interface
  value and leaves the state as it was; a program that ends with the statement \<open>s\<close>
  evaluates the statements before \<open>s\<close> in order, fails with the first failure among
  them, and otherwise has the result of \<open>s\<close>, evaluated in the state they left.
\<close>

theorem evalProgram_value:
  "Evaluate ff (Suc n) (Program []) env st = (Inr NilVal, st)
   \<and> Evaluate ff (Suc n) (Program (ss @ [s])) env st =
       (case evalBlock (Evaluate ff n) NilVal ss env st of
          (Inl e, st1) \<Rightarrow> (Inl e, st1)
        | (Inr u, st1) \<Rightarrow> Evaluate ff n s env st1)"
  by (simp add: dispatch_def evalProgram_def evalBlock_append split: prod.splits sum.splits)

text \<open>
  Claim C4 (a return statement without a value succeeds and yields ReturnSignal(Nada), so
  a function whose body ends in a bare \<open>return\<close> returns Nada). \<open>evalReturnStmt\<close> passes
  the absent value, a nil node, to \<open>Evaluate\<close>, whose type switch has no case for it: the
  statement fails with the error of the default case, and so does the call of a function
  \<open>f\<close> declared as \<open>funky f() { return }\<close>. \<open>evalVarDeclaration\<close> does test for the
  absent value: \<open>val x\<close> evaluates to Nada.
\<close>

theorem bare_return_fails:
  "Evaluate ff (Suc (Suc n)) (ReturnStmt NilStmt) env st = (Inl (Error (NodeNotAdded NilStmt)), st)
   \<and> fst (run ff (Suc (Suc (Suc (Suc n))))
            (Program [FunctionDeclaration ''f'' [] [ReturnStmt NilStmt], CallExpr [] (Identifier ''f'')]))
       = Inl (Error (NodeNotAdded NilStmt))
   \<and> fst (run ff (Suc (Suc n)) (Program [VarDeclaration False ''x'' NilStmt])) = Inr NadaVal"
  by (simp add: eval_defs start_defs evalCallExpr_def)




subsection \<open>Calls\<close>

text \<open>
  Claim C3 (a call evaluates the callee first and then the arguments from left to right).
  The claim fails on the call \<open>f(f = 1)\<close> in the state that \<open>val f = print\<close> leaves: the
  code evaluates the argument first, which assigns 1 to \<open>f\<close>, then finds that the callee
  \<open>f\<close> is the number 1 and fails, with nothing printed; evaluation in the order of the
  claim would call \<open>print\<close> and write the line \<open>1\<close>.
\<close>

theorem evalCallExpr_order_counterexample:
  "fst (evalCallExpr FormatFloat_integral demoEval
          [AssignmentExpr (Identifier ''f'') (NumericLiteral 1)] (Identifier ''f'') (fst globalStart) demoState)
     = Inl (Error (NotCallable (NumberVal 1)))
   \<and> stdout (snd (evalCallExpr FormatFloat_integral demoEval
          [AssignmentExpr (Identifier ''f'') (NumericLiteral 1)] (Identifier ''f'') (fst globalStart) demoState))
     = []
   \<and> fst (evalCallExpr_calleeFirst FormatFloat_integral demoEval
          [AssignmentExpr (Identifier ''f'') (NumericLiteral 1)] (Identifier ''f'') (fst globalStart) demoState)
     = Inr NadaVal
   \<and> stdout (snd (evalCallExpr_calleeFirst FormatFloat_integral demoEval
          [AssignmentExpr (Identifier ''f'') (NumericLiteral 1)] (Identifier ''f'') (fst globalStart) demoState))
     = [''1'']"
  by (simp add: demo_defs evalCallExpr_def evalCallExpr_calleeFirst_def FormatFloat_integral_def
        digits.simps)

text \<open>
  Claim C3, as amended: a call evaluates the arguments first, from left to right, and
  then the callee. If an argument fails, the call fails with that failure in the state
  the arguments left, whatever the callee is; otherwise the callee is evaluated in the
  state the arguments left, and the call fails with the failure of the callee or applies
  the function it yields to the values of the arguments. The arguments are evaluated in
  order: those of \<open>as @ bs\<close> are those of \<open>as\<close>, then those of \<open>bs\<close> in the state that
  \<open>as\<close> left, and a failure in \<open>as\<close> ends the evaluation.
\<close>

theorem evalCallExpr_args_before_callee:
  "(evalArgs ev args env st = (Inl e, st1) \<longrightarrow> evalCallExpr ff ev args caller env st = (Inl e, st1))
 \<and> (evalArgs ev args env st = (Inr argVals, st1) \<and> ev caller env st1 = (Inl e, st2) \<longrightarrow>
        evalCallExpr ff ev args caller env st = (Inl e, st2))
 \<and> (evalArgs ev args env st = (Inr argVals, st1) \<and> ev caller env st1 = (Inr fn, st2) \<longrightarrow>
        evalCallExpr ff ev args caller env st = callFunction ff ev fn argVals env st2)
 \<and> (evalArgs ev as env st = (Inr vs, st1) \<and> evalArgs ev bs env st1 = (Inr ws, st2) \<longrightarrow>
        evalArgs ev (as @ bs) env st = (Inr (vs @ ws), st2))
 \<and> (evalArgs ev as env st = (Inl e, st1) \<longrightarrow> evalArgs ev (as @ bs) env st = (Inl e, st1))"
  by (simp add: evalCallExpr_def evalArgs_append)

theorem evalCallExpr_args_before_callee_witness:
  "fst (evalArgs demoEval [AssignmentExpr (Identifier ''f'') (NumericLiteral 1)] (fst globalStart) demoState)
     = Inr [NumberVal 1]
   \<and> fst (demoEval (Identifier ''f'') (fst globalStart)
            (snd (evalArgs demoEval [AssignmentExpr (Identifier ''f'') (NumericLiteral 1)] (fst globalStart) demoState)))
     = Inr (NumberVal 1)
   \<and> fst (evalCallExpr FormatFloat_integral demoEval
          [AssignmentExpr (Identifier ''f'') (NumericLiteral 1)] (Identifier ''f'') (fst globalStart) demoState)
     = Inl (Error (NotCallable (NumberVal 1)))
   \<and> fst (evalCallExpr FormatFloat_integral demoEval [NilStmt] (Identifier ''f'') (fst globalStart) demoState)
     = Inl (Error (NodeNotAdded NilStmt))
   \<and> fst (evalCallExpr FormatFloat_integral demoEval [NumericLiteral 1] NilStmt (fst globalStart) demoState)
     = Inl (Error (NodeNotAdded NilStmt))
   \<and> fst (evalArgs demoEval ([NumericLiteral 1] @ [NumericLiteral 2]) (fst globalStart) demoState)
     = Inr ([NumberVal 1] @ [NumberVal 2])
   \<and> fst (evalArgs demoEval ([NilStmt] @ [NumericLiteral 2]) (fst globalStart) demoState)
     = Inl (Error (NodeNotAdded NilStmt))"
  using
    evalCallExpr_args_before_callee
      [where ff = FormatFloat_integral and ev = demoEval
         and args = "[AssignmentExpr (Identifier ''f'') (NumericLiteral 1)]" and caller = "Identifier ''f''"
         and env = "fst globalStart" and st = demoState and argVals = "[NumberVal 1]" and fn = "NumberVal 1"
         and ?st1.0 = "snd (evalArgs demoEval [AssignmentExpr (Identifier ''f'') (NumericLiteral 1)]
                        (fst globalStart) demoState)"
         and ?st2.0 = "snd (evalArgs demoEval [AssignmentExpr (Identifier ''f'') (NumericLiteral 1)]
                        (fst globalStart) demoState)"
         and as = "[NumericLiteral 1]" and bs = "[NumericLiteral 2]" and vs = "[NumberVal 1]"
         and ws = "[NumberVal 2]" and e = "Error (NodeNotAdded NilStmt)"]
    evalCallExpr_args_before_callee
      [where ff = FormatFloat_integral and ev = demoEval
         and args = "[NilStmt]" and caller = "Identifier ''f''"
         and env = "fst globalStart" and st = demoState and ?st1.0 = demoState
         and as = "[NilStmt]" and bs = "[NumericLiteral 2]"
         and e = "Error (NodeNotAdded NilStmt)"]
    evalCallExpr_args_before_callee
      [where ff = FormatFloat_integral and ev = demoEval
         and args = "[NumericLiteral 1]" and caller = "NilStmt"
         and env = "fst globalStart" and st = demoState and ?st1.0 = demoState and ?st2.0 = demoState
         and argVals = "[NumberVal 1]" and as = "[NumericLiteral 1]" and bs = "[NumericLiteral 2]"
         and vs = "[NumberVal 1]" and ws = "[NumberVal 2]"
         and e = "Error (NodeNotAdded NilStmt)"]
  by (simp add: demo_defs)

subsection \<open>Counted loops\<close>

text \<open>
  Claim C7 (a \<open>for\<close> statement whose count evaluates to the number \<open>n\<close> evaluates its
  body exactly max(0, trunc(n)) times in the enclosing scope: \<open>n\<close> times for a whole
  \<open>n \<ge> 0\<close>, no time for \<open>n < 0\<close> or a fraction below 1; a count that is not a number is
  a runtime error). The claim fails for a count that does not fit the 64 bits of the
  \<open>int\<close> to which \<open>evalForStmt\<close> converts it: for the count 10000000000000000000 the
  truncation is that number, yet the loop runs no round, so that the statement
  \<open>for (10000000000000000000) { print("x") }\<close> prints nothing and has the nil value,
  where one round alone prints a line.
\<close>

theorem evalForStmt_count_counterexample:
  "trunc 10000000000000000000 = 10000000000000000000
   \<and> evalForStmt demoEval (NumericLiteral 10000000000000000000)
        [CallExpr [StringLiteral ''x''] (Identifier ''print'')] (fst globalStart) (snd globalStart)
       = (Inr NilVal, snd globalStart)
   \<and> stdout (snd globalStart) = []
   \<and> stdout (snd (repeatBody (Suc 0)
                (\<lambda>lastEvaluated s. evalBlock demoEval lastEvaluated
                     [CallExpr [StringLiteral ''x''] (Identifier ''print'')] (fst globalStart) s)
                NilVal (snd globalStart)))
       = [''x'']"
  by (simp add: eval_defs start_defs demoEval_def evalCallExpr_def evalForStmt_def forLoop.simps
        go_int_def trunc_def)

text \<open>
  Claim C7, as amended: when the count evaluates to the number \<open>n\<close> and the truncation
  of \<open>n\<close> fits the 64 bits of an \<open>int\<close> (it is at least \<open>-(2^63)\<close> and below \<open>2^63\<close>),
  the statement is the body evaluated max(0, trunc(n)) times in a row in the
  environment of the statement, from the state that the count left, each round from
  the state of the round before, a failing round ending the loop with its failure. For
  every \<open>n < 1\<close> the body is not evaluated: the statement has the nil value and leaves
  the state that the count left. For a whole number \<open>k\<close> with \<open>0 \<le> k < 2^63\<close> the body
  is evaluated \<open>k\<close> times. When the count evaluates to a value that is not a number, the
  statement fails with the error of \<open>evalForStmt\<close>.
\<close>

theorem evalForStmt_count:
  assumes "ev condition env st = (Inr countVal, st1)"
  shows "(countVal = NumberVal n \<and> - (2 ^ 63) \<le> trunc n \<and> trunc n < 2 ^ 63 \<longrightarrow>
            evalForStmt ev condition body env st =
              repeatBody (nat (max 0 (trunc n)))
                (\<lambda>lastEvaluated s. evalBlock ev lastEvaluated body env s) NilVal st1)
       \<and> (countVal = NumberVal n \<and> n < 1 \<longrightarrow>
            evalForStmt ev condition body env st = (Inr NilVal, st1))
       \<and> (countVal = NumberVal (of_int k) \<and> 0 \<le> k \<and> k < 2 ^ 63 \<longrightarrow>
            evalForStmt ev condition body env st =
              repeatBody (nat k)
                (\<lambda>lastEvaluated s. evalBlock ev lastEvaluated body env s) NilVal st1)
       \<and> ((\<forall>x. countVal \<noteq> NumberVal x) \<longrightarrow>
            evalForStmt ev condition body env st = (Inl (Error ForCountNotNumber), st1))"
proof (intro conjI impI)
  assume h: "countVal = NumberVal n \<and> - (2 ^ 63) \<le> trunc n \<and> trunc n < 2 ^ 63"
  then have "go_int n = trunc n" by (simp add: go_int_in_range)
  then show "evalForStmt ev condition body env st =
      repeatBody (nat (max 0 (trunc n)))
        (\<lambda>lastEvaluated s. evalBlock ev lastEvaluated body env s) NilVal st1"
    using assms h by (simp add: evalForStmt_def forLoop_repeatBody max_def)
next
  assume h: "countVal = NumberVal n \<and> n < 1"
  then have "nat (go_int n) = 0" using go_int_below_one [of n] by simp
  then show "evalForStmt ev condition body env st = (Inr NilVal, st1)"
    using assms h by (simp add: evalForStmt_def forLoop_repeatBody)
next
  assume h: "countVal = NumberVal (of_int k) \<and> 0 \<le> k \<and> k < 2 ^ 63"
  then have "go_int (of_int k) = k" by (simp add: go_int_def trunc_of_int)
  then show "evalForStmt ev condition body env st =
      repeatBody (nat k) (\<lambda>lastEvaluated s. evalBlock ev lastEvaluated body env s) NilVal st1"
    using assms h by (simp add: evalForStmt_def forLoop_repeatBody)
next
  assume "\<forall>x. countVal \<noteq> NumberVal x"
  then show "evalForStmt ev condition body env st = (Inl (Error ForCountNotNumber), st1)"
    using assms by (cases countVal) (simp_all add: evalForStmt_def)
qed

theorem evalForStmt_count_witness:
  "demoEval (NumericLiteral (5 / 2)) (fst globalStart) (snd globalStart)
     = (Inr (NumberVal (5 / 2)), snd globalStart)
   \<and> trunc (5 / 2) = 2
   \<and> stdout (snd (evalForStmt demoEval (NumericLiteral (5 / 2))
                [CallExpr [StringLiteral ''x''] (Identifier ''print'')] (fst globalStart) (snd globalStart)))
       = [''x'', ''x'']
   \<and> stdout (snd (evalForStmt demoEval (NumericLiteral 3)
                [CallExpr [StringLiteral ''x''] (Identifier ''print'')] (fst globalStart) (snd globalStart)))
       = [''x'', ''x'', ''x'']
   \<and> evalForStmt demoEval (NumericLiteral (- (7 / 2)))
        [CallExpr [StringLiteral ''x''] (Identifier ''print'')] (fst globalStart) (snd globalStart)
       = (Inr NilVal, snd globalStart)
   \<and> evalForStmt demoEval (StringLiteral ''3'')
        [CallExpr [StringLiteral ''x''] (Identifier ''print'')] (fst globalStart) (snd globalStart)
       = (Inl (Error ForCountNotNumber), snd globalStart)"
  using
    evalForStmt_count
      [where ev = demoEval and condition = "NumericLiteral (5 / 2)" and env = "fst globalStart"
         and st = "snd globalStart" and countVal = "NumberVal (5 / 2)" and ?st1.0 = "snd globalStart"
         and n = "5 / 2" and body = "[CallExpr [StringLiteral ''x''] (Identifier ''print'')]" and k = 0]
    evalForStmt_count
      [where ev = demoEval and condition = "NumericLiteral 3" and env = "fst globalStart"
         and st = "snd globalStart" and countVal = "NumberVal 3" and ?st1.0 = "snd globalStart"
         and n = 3 and body = "[CallExpr [StringLiteral ''x''] (Identifier ''print'')]" and k = 3]
    evalForStmt_count
      [where ev = demoEval and condition = "NumericLiteral (- (7 / 2))" and env = "fst globalStart"
         and st = "snd globalStart" and countVal = "NumberVal (- (7 / 2))" and ?st1.0 = "snd globalStart"
         and n = "- (7 / 2)" and body = "[CallExpr [StringLiteral ''x''] (Identifier ''print'')]" and k = 0]
    evalForStmt_count
      [where ev = demoEval and condition = "StringLiteral ''3''" and env = "fst globalStart"
         and st = "snd globalStart" and countVal = "StringVal ''3''" and ?st1.0 = "snd globalStart"
         and n = 0 and body = "[CallExpr [StringLiteral ''x''] (Identifier ''print'')]" and k = 0]
  by (simp add: eval_defs start_defs demoEval_def evalCallExpr_def trunc_def numeral_2_eq_2
        numeral_3_eq_3)

subsection \<open>The lexer\<close>

text \<open>
  Claim C5 (where the lexer sees \<open>|\<close> followed by \<open>|\<close>, it emits a token of kind OR for
  the two runes). \<open>lexOr\<close> never returns \<open>OR\<close>: after the loop it compares the token
  \<open>orType\<close>, still \<open>EOF\<close>, with 2, where \<open>lexAnd\<close> compares the count \<open>andCount\<close>. So the
  source text \<open>||\<close> is lexed as one \<open>ILLEGAL\<close> token, while \<open>&&\<close> is lexed as \<open>AND\<close>.
\<close>

theorem lexOr_never_OR:
  "fst (snd (lexOr l)) = ILLEGAL
   \<and> Lex (NewLexer ''||'') []
       = [TokenItem \<lparr>line = 1, column = 1\<rparr> ILLEGAL ''||'', TokenItem \<lparr>line = 1, column = 2\<rparr> EOF []]
   \<and> Lex (NewLexer ''&&'') []
       = [TokenItem \<lparr>line = 1, column = 1\<rparr> AND ''&&'', TokenItem \<lparr>line = 1, column = 2\<rparr> EOF []]"
  by (simp add: Lex.simps NewLexer_def lexOr_def lexOrLoop.simps lexAnd_def lexAndLoop.simps
        advanceColumn_def goBack_def singleCharToken_def Let_def split: prod.splits)

end
